theory Spec2Isabelle
  imports Main "HOL-Library.Word"
begin

unbundle bit_operations_syntax

section \<open>The traceleft metagenerator: schema compiler and generated decoder\<close>

text \<open>
  The development follows \<^verbatim>\<open>metagenerator/metagenerator.go\<close>. That file holds two
  programs: the schema compiler itself (\<^verbatim>\<open>ToCamel\<close>, \<^verbatim>\<open>parseLine\<close>,
  \<^verbatim>\<open>parseSyscall\<close>, \<^verbatim>\<open>GatherSyscalls\<close>) and, as template text, the decoder it
  emits (\<^verbatim>\<open>FdMap\<close>, \<^verbatim>\<open>bufLen\<close>, \<^verbatim>\<open>GetArgN\<close>, \<^verbatim>\<open>GetStruct\<close>).
  Both are embedded here; the emitted decoder is embedded as the function the templates
  expand to for a given list of compiled syscalls.
\<close>

type_synonym byte = "8 word"
type_synonym uint16 = "16 word"
type_synonym uint32 = "32 word"
type_synonym uint64 = "64 word"
type_synonym int64 = "64 word"

subsection \<open>FdInfo and FdMap\<close>

record FdInfo =
  Path :: string
  Ino :: uint64
  Major :: uint64
  Minor :: uint64

text \<open>Go's zero value of the struct: what a map read of a missing key yields.\<close>

definition zeroFdInfo :: FdInfo where
  "zeroFdInfo = \<lparr>Path = [], Ino = 0, Major = 0, Minor = 0\<rparr>"

text \<open>
  \<^verbatim>\<open>items map[uint32]map[uint32]FdInfo\<close>: the inner maps hold \<^verbatim>\<open>FdInfo\<close> values,
  not pointers. The mutex is not modelled: the methods are taken one at a time.
\<close>

record FdMap =
  items :: "uint32 \<rightharpoonup> (uint32 \<rightharpoonup> FdInfo)"

text \<open>
  \<^verbatim>\<open>Get\<close> returns \<^verbatim>\<open>&info\<close>, the address of its local variable, which therefore
  lives on the heap. The heap of such \<^verbatim>\<open>FdInfo\<close> cells is a list; an address is an
  index into it, \<open>None\<close> is \<^verbatim>\<open>nil\<close>, and allocation appends a cell.
\<close>

type_synonym heap = "FdInfo list"
type_synonym ptr = "nat option"

definition load :: "heap \<Rightarrow> nat \<Rightarrow> FdInfo option" where
  "load h p = (if p < length h then Some (h ! p) else None)"

definition store :: "heap \<Rightarrow> nat \<Rightarrow> FdInfo \<Rightarrow> heap" where
  "store h p v = h[p := v]"

definition NewFdMap :: FdMap where
  "NewFdMap = \<lparr>items = Map.empty\<rparr>"

text \<open>
  Every method has the pointer receiver \<^verbatim>\<open>f *FdMap\<close>, so each returns the table
  after the call. \<^verbatim>\<open>Get\<close> returns \<^verbatim>\<open>(nil, false)\<close> when the pid has no inner map
  and otherwise a pointer to a fresh copy of \<^verbatim>\<open>inner[fd]\<close> (the zero value when the
  descriptor is missing) with the map's \<^verbatim>\<open>ok\<close>.
\<close>

definition Get :: "FdMap \<Rightarrow> heap \<Rightarrow> uint32 \<Rightarrow> uint32 \<Rightarrow> (ptr \<times> bool) \<times> FdMap \<times> heap" where
  "Get f h pid fd =
     (case items f pid of
        None \<Rightarrow> ((None, False), f, h)
      | Some inner \<Rightarrow>
          (let info = (case inner fd of None \<Rightarrow> zeroFdInfo | Some i \<Rightarrow> i);
               ok = (case inner fd of None \<Rightarrow> False | Some i \<Rightarrow> True)
           in ((Some (length h), ok), f, h @ [info])))"

definition Put :: "FdMap \<Rightarrow> uint32 \<Rightarrow> uint32 \<Rightarrow> FdInfo \<Rightarrow> FdMap" where
  "Put f pid fd info =
     (let its = (case items f pid of
                   None \<Rightarrow> (items f)(pid \<mapsto> Map.empty)
                 | Some m \<Rightarrow> items f)
      in case its pid of
           None \<Rightarrow> f\<lparr>items := its\<rparr>
         | Some inner \<Rightarrow> f\<lparr>items := its(pid \<mapsto> inner(fd \<mapsto> info))\<rparr>)"

definition Delete :: "FdMap \<Rightarrow> uint32 \<Rightarrow> uint32 \<Rightarrow> FdMap" where
  "Delete f pid fd =
     (case items f pid of
        None \<Rightarrow> f
      | Some m \<Rightarrow> f\<lparr>items := (items f)(pid \<mapsto> m(fd := None))\<rparr>)"

definition DeletePid :: "FdMap \<Rightarrow> uint32 \<Rightarrow> FdMap" where
  "DeletePid f pid = f\<lparr>items := (items f)(pid := None)\<rparr>"

definition Clear :: "FdMap \<Rightarrow> FdMap" where
  "Clear f = f\<lparr>items := Map.empty\<rparr>"

text \<open>What a caller sees through the pointer \<^verbatim>\<open>Get\<close> returned.\<close>

definition deref :: "heap \<Rightarrow> ptr \<Rightarrow> FdInfo option" where
  "deref h p = (case p of None \<Rightarrow> None | Some a \<Rightarrow> load h a)"

subsection \<open>Compiled schema objects\<close>

text \<open>
  \<^verbatim>\<open>type Param struct\<close> and \<^verbatim>\<open>type Syscall struct\<close>. The field \<^verbatim>\<open>Name\<close> of
  \<^verbatim>\<open>Syscall\<close> is \<open>SyscallName\<close> here, since \<open>Name\<close> is the field of \<open>Param\<close>.
\<close>

record Param =
  Position :: int
  Name :: string
  Type :: string
  Suffix :: string
  HashFunc :: string
  NeedsPath :: bool

record Syscall =
  SyscallName :: string
  RawName :: string
  Params :: "Param list"

subsection \<open>The emitted helpers: min, bufLen and the buffer-to-string fragment\<close>

datatype error =
    EOF
  | ErrUnexpectedEOF
  | IndexOutOfRange
  | NilDereference
  | NegativeLength
  | ReadPastField
  | NoSuchArgument string int
  | NotImplemented string
  | DoesNotCompile
  | LstatError string
  | ReadError string
  | ErrorWalking error

definition min_go :: "int \<Rightarrow> int \<Rightarrow> int" where
  "min_go x y = (if x > y then y else x)"

text \<open>
  \<^verbatim>\<open>for idx := 0; idx < len(buf); idx++ { if buf[idx] == 0 { return idx } }; return len(buf)\<close>.
  The loop is the function of the running index.
\<close>

function bufLen_from :: "byte list \<Rightarrow> nat \<Rightarrow> nat" where
  "bufLen_from buf idx =
     (if idx < length buf
      then (if buf ! idx = 0 then idx else bufLen_from buf (Suc idx))
      else length buf)"
  by pat_completeness auto
termination
  by (relation "measure (\<lambda>(buf, idx). length buf - idx)") auto

declare bufLen_from.simps [simp del]

definition bufLen :: "byte list \<Rightarrow> nat" where
  "bufLen buf = bufLen_from buf 0"

text \<open>\<^verbatim>\<open>C.int(x)\<close> of a Go \<^verbatim>\<open>int\<close>: the low 32 bits, read as signed.\<close>

definition C_int :: "int \<Rightarrow> int" where
  "C_int x = sint (word_of_int x :: 32 word)"

text \<open>
  \<^verbatim>\<open>C.GoStringN(buffer, length)\<close> copies exactly \<open>length\<close> bytes starting at
  \<open>buffer\<close>; it does not stop at the end of the field. Here \<open>buffer\<close> is the field
  alone: a negative length (the runtime panics on it) and a length beyond the field
  (the copy would take bytes that are not the field's) are errors, so that only a length
  within the field yields a string.
\<close>

definition GoStringN :: "byte list \<Rightarrow> int \<Rightarrow> error + byte list" where
  "GoStringN buffer n =
     (if n < 0 then Inl NegativeLength
      else if int (length buffer) < n then Inl ReadPastField
      else Inr (take (nat n) buffer))"

text \<open>
  The fragment that \<^verbatim>\<open>eventStringsTemplate\<close> expands to for a buffer field, the same
  text in \<^verbatim>\<open>String\<close> and in \<^verbatim>\<open>GetArgN\<close>: \<open>name\<close> is the event type's name
  (\<^verbatim>\<open>$name\<close>), \<open>ret\<close> the \<^verbatim>\<open>int64\<close> return value (\<^verbatim>\<open>int(ret)\<close> is its
  signed value), \<open>buf\<close> the field.
\<close>

definition bufferGo :: "string \<Rightarrow> int64 \<Rightarrow> byte list \<Rightarrow> error + byte list" where
  "bufferGo name ret buf =
     (let len0 = C_int 0;
          len1 = (if name = ''ReadEvent'' \<or> name = ''WriteEvent''
                  then (if 0 <s ret then C_int (min_go (sint ret) (int (length buf)))
                        else len0)
                  else C_int (int (bufLen buf)))
      in GoStringN buf len1)"

text \<open>
  The inverse direction, used to state idempotence: a decoded string put back into a
  zeroed buffer of the same capacity, as \<^verbatim>\<open>copy(ev.X[:], ...)\<close> does.
\<close>

definition copyInto :: "nat \<Rightarrow> byte list \<Rightarrow> byte list" where
  "copyInto n src = take n src @ replicate (n - length src) 0"

subsection \<open>Events of the emitted decoder\<close>

text \<open>
  A field of an emitted event struct holds what \<^verbatim>\<open>getStructTemplate\<close> reads for the
  parameter's type (\<open>Unread\<close> for a type the template reads nothing for), and the shadow
  field \<^verbatim>\<open>{{ $param.Name }}Path\<close> when the parameter needs a path.
\<close>

datatype fieldVal =
    Bytes "byte list"
  | U32 uint32
  | I32 "32 word"
  | U64 uint64
  | I64 int64
  | Unread

record Field =
  FParam :: Param
  FVal :: fieldVal
  FPath :: string

datatype Event =
    SyscallEvent string "Field list"
  | FileEvent uint64 uint64 uint64 uint64
  | ConnectV4Event uint32 uint32 uint16 uint16 uint32
  | ConnectV6Event "byte list" "byte list" uint16 uint16 uint32
  | DefaultEvent

text \<open>
  The header as \<^verbatim>\<open>GetStruct\<close> uses it: \<^verbatim>\<open>ce.Pid\<close> and \<^verbatim>\<open>ce.Name\<close>
  (\<open>EventName\<close> here), with the timestamp and return value of \<^verbatim>\<open>CommonEvent\<close>.
\<close>

record CommonEvent =
  Timestamp :: uint64
  Pid :: int64
  Ret :: int64
  EventName :: string

subsection \<open>GetArgN\<close>

text \<open>\<^verbatim>\<open>fmt.Sprintf("%v", x)\<close> of an integer: its decimal digits.\<close>

fun showNat :: "nat \<Rightarrow> string" where
  "showNat n =
     (if n < 10 then [char_of (48 + n)]
      else showNat (n div 10) @ [char_of (48 + n mod 10)])"

declare showNat.simps [simp del]

definition showInt :: "int \<Rightarrow> string" where
  "showInt i = (if i < 0 then CHR ''-'' # showNat (nat (- i)) else showNat (nat i))"

text \<open>A Go string is a sequence of bytes; as a HOL string, byte by byte.\<close>

definition bytesToString :: "byte list \<Rightarrow> string" where
  "bytesToString bs = map (\<lambda>b. char_of (unat b)) bs"

text \<open>
  One \<^verbatim>\<open>case\<close> of the emitted \<^verbatim>\<open>GetArgN\<close>: \<^verbatim>\<open>%v\<close> for the types
  \<^verbatim>\<open>uint64\<close>, \<^verbatim>\<open>int64\<close> and \<^verbatim>\<open>uint32\<close>, the buffer fragment for every other
  type. The fragment calls \<^verbatim>\<open>bufLen\<close> or \<^verbatim>\<open>len\<close> on the field, so the emitted text
  is a Go program only where the field is a byte array; and a field always holds a
  value of its declared type.
\<close>

definition argString :: "string \<Rightarrow> int64 \<Rightarrow> Field \<Rightarrow> error + string" where
  "argString name ret f =
     (if Type (FParam f) = ''uint64'' \<or> Type (FParam f) = ''int64''
         \<or> Type (FParam f) = ''uint32''
      then (case FVal f of
              U64 w \<Rightarrow> Inr (showNat (unat w))
            | I64 w \<Rightarrow> Inr (showInt (sint w))
            | U32 w \<Rightarrow> Inr (showNat (unat w))
            | I32 w \<Rightarrow> Inl DoesNotCompile
            | Bytes b \<Rightarrow> Inl DoesNotCompile
            | Unread \<Rightarrow> Inl DoesNotCompile)
      else (case FVal f of
              Bytes buf \<Rightarrow>
                (case bufferGo name ret buf of
                   Inl e \<Rightarrow> Inl e
                 | Inr bufferGo' \<Rightarrow> Inr (bytesToString bufferGo'))
            | U64 w \<Rightarrow> Inl DoesNotCompile
            | I64 w \<Rightarrow> Inl DoesNotCompile
            | U32 w \<Rightarrow> Inl DoesNotCompile
            | I32 w \<Rightarrow> Inl DoesNotCompile
            | Unread \<Rightarrow> Inl DoesNotCompile))"

definition GetArgN :: "Event \<Rightarrow> int \<Rightarrow> int64 \<Rightarrow> error + string" where
  "GetArgN e n ret =
     (case e of
        SyscallEvent name fs \<Rightarrow>
          if 0 \<le> n \<and> nat n < length fs then argString name ret (fs ! nat n)
          else Inl (NoSuchArgument name n)
      | FileEvent fd ino major minor \<Rightarrow> Inl (NotImplemented ''FileEvent'')
      | ConnectV4Event sa da sp dp ns \<Rightarrow> Inl (NotImplemented ''ConnectV4Event'')
      | ConnectV6Event sa da sp dp ns \<Rightarrow> Inl (NotImplemented ''ConnectV6Event'')
      | DefaultEvent \<Rightarrow> Inl (NotImplemented ''DefaultEvent''))"

subsection \<open>Reading from the buffer\<close>

text \<open>\<^verbatim>\<open>buf.Next(n)\<close>: at most \<open>n\<close> bytes, and the buffer after them.\<close>

definition Next :: "byte list \<Rightarrow> nat \<Rightarrow> byte list \<times> byte list" where
  "Next buf n = (take n buf, drop n buf)"

fun leWord :: "byte list \<Rightarrow> 'a::len word" where
  "leWord [] = 0"
| "leWord (b # bs) = ucast b OR push_bit 8 (leWord bs)"

text \<open>
  \<^verbatim>\<open>binary.LittleEndian.Uint16/32/64\<close> index the last byte they need first, so a
  shorter slice panics.
\<close>

definition Uint16 :: "byte list \<Rightarrow> error + uint16" where
  "Uint16 b = (if length b < 2 then Inl IndexOutOfRange else Inr (leWord (take 2 b)))"

definition Uint32 :: "byte list \<Rightarrow> error + uint32" where
  "Uint32 b = (if length b < 4 then Inl IndexOutOfRange else Inr (leWord (take 4 b)))"

definition Uint64 :: "byte list \<Rightarrow> error + uint64" where
  "Uint64 b = (if length b < 8 then Inl IndexOutOfRange else Inr (leWord (take 8 b)))"

subsection \<open>The environment of the decoder\<close>

text \<open>
  What the decoder asks of the operating system and of \<^verbatim>\<open>fmt\<close> is a parameter:
  \<open>statRoot env pid path\<close> is
  \<^verbatim>\<open>syscall.Stat(filepath.Join("/proc", strconv.FormatInt(pid, 10), "root", path), &stat)\<close>,
  \<open>procLookupPath env pid fd\<close> is \<^verbatim>\<open>os.Readlink("/proc/<pid>/fd/<fd>")\<close> (\<open>None\<close> when it
  fails), and \<open>quoted env s\<close> is \<^verbatim>\<open>%q\<close> of \<open>s\<close>.
\<close>

datatype errno = ENOENT | EACCES | ENOTDIR | ELOOP | ENAMETOOLONG | EIO

record Stat_t =
  StIno :: uint64
  StDev :: uint64

definition zeroStat :: Stat_t where
  "zeroStat = \<lparr>StIno = 0, StDev = 0\<rparr>"

record Env =
  statRoot :: "int64 \<Rightarrow> string \<Rightarrow> errno + Stat_t"
  procLookupPath :: "uint32 \<Rightarrow> uint32 \<Rightarrow> string option"
  quoted :: "string \<Rightarrow> string"

definition HasPrefix :: "string \<Rightarrow> string \<Rightarrow> bool" where
  "HasPrefix s prefix = (take (length prefix) s = prefix)"

subsection \<open>getStructTemplate: the decode case of one compiled syscall\<close>

text \<open>
  The block emitted for a parameter with \<^verbatim>\<open>NeedsPath\<close>. \<open>fileName\<close> starts as
  \<^verbatim>\<open>"unknown"\<close>; with a tracked entry the path is stat'ed; a failing stat leaves
  \<^verbatim>\<open>stat\<close> zeroed and, for \<^verbatim>\<open>ENOENT\<close> only, sets the deleted annotation; then the
  comparison of inode, major and minor runs whatever the stat returned.
\<close>

definition resolvePath ::
  "Env \<Rightarrow> FdMap \<Rightarrow> heap \<Rightarrow> int64 \<Rightarrow> uint32 \<Rightarrow> (error + string) \<times> FdMap \<times> heap" where
  "resolvePath env fds h pid fd =
     (case Get fds h (ucast pid) fd of
        ((info, ok), fds', h') \<Rightarrow>
          if \<not> ok then (Inr ''unknown'', fds', h')
          else (case deref h' info of
                  None \<Rightarrow> (Inl NilDereference, fds', h')
                | Some i \<Rightarrow>
                    (let r = statRoot env pid (Path i);
                         stat = (case r of Inl e \<Rightarrow> zeroStat | Inr st \<Rightarrow> st);
                         fileName =
                           (case r of
                              Inl e \<Rightarrow>
                                if e = ENOENT
                                then ''[deleted] ('' @ quoted env (Path i) @ '')?''
                                else ''unknown''
                            | Inr st \<Rightarrow> ''unknown'')
                     in (Inr (if Ino i = StIno stat
                                 \<and> Major i = drop_bit 8 (StDev stat)
                                 \<and> Minor i = (StDev stat AND 0xff)
                              then Path i else fileName),
                         fds', h'))))"

text \<open>The reads of one parameter, by its decoder type; other types read nothing.\<close>

definition copy256 :: "byte list \<Rightarrow> byte list" where
  "copy256 src = copyInto 256 src"

definition decodeField :: "Param \<Rightarrow> byte list \<Rightarrow> error + (fieldVal \<times> byte list)" where
  "decodeField p buf =
     (if Type p = ''[256]byte''
      then (case Next buf 256 of (b, buf') \<Rightarrow> Inr (Bytes (copy256 b), buf'))
      else if Type p = ''uint32'' \<or> Type p = ''int32''
      then (case Next buf 4 of (b, buf') \<Rightarrow>
              (case Uint32 b of
                 Inl e \<Rightarrow> Inl e
               | Inr w \<Rightarrow> Inr (if Type p = ''uint32'' then U32 w else I32 w, buf')))
      else if Type p = ''uint64'' \<or> Type p = ''int64''
      then (case Next buf 8 of (b, buf') \<Rightarrow>
              (case Uint64 b of
                 Inl e \<Rightarrow> Inl e
               | Inr w \<Rightarrow> Inr (if Type p = ''uint64'' then U64 w else I64 w, buf')))
      else Inr (Unread, buf))"

text \<open>
  \<^verbatim>\<open>uint32(ev.X)\<close>: a conversion of an integer field. For a field that is no integer
  the emitted Go text is not a program.
\<close>

definition asUint32 :: "fieldVal \<Rightarrow> uint32 option" where
  "asUint32 v =
     (case v of
        U32 w \<Rightarrow> Some w
      | I32 w \<Rightarrow> Some w
      | U64 w \<Rightarrow> Some (ucast w)
      | I64 w \<Rightarrow> Some (ucast w)
      | Bytes b \<Rightarrow> None
      | Unread \<Rightarrow> None)"

fun decodeParams ::
  "Env \<Rightarrow> int64 \<Rightarrow> Param list \<Rightarrow> byte list \<Rightarrow> FdMap \<Rightarrow> heap \<Rightarrow>
     (error + Field list) \<times> FdMap \<times> heap" where
  "decodeParams env pid [] buf fds h = (Inr [], fds, h)"
| "decodeParams env pid (p # ps) buf fds h =
     (case decodeField p buf of
        Inl e \<Rightarrow> (Inl e, fds, h)
      | Inr (v, buf') \<Rightarrow>
          if NeedsPath p
          then (case asUint32 v of
                  None \<Rightarrow> (Inl DoesNotCompile, fds, h)
                | Some fd \<Rightarrow>
                    (case resolvePath env fds h pid fd of
                       (Inl e, fds', h') \<Rightarrow> (Inl e, fds', h')
                     | (Inr fileName, fds', h') \<Rightarrow>
                         (case decodeParams env pid ps buf' fds' h' of
                            (Inl e, fds'', h'') \<Rightarrow> (Inl e, fds'', h'')
                          | (Inr fs, fds'', h'') \<Rightarrow>
                              (Inr (\<lparr>FParam = p, FVal = v, FPath = fileName\<rparr> # fs),
                               fds'', h''))))
          else (case decodeParams env pid ps buf' fds h of
                  (Inl e, fds'', h'') \<Rightarrow> (Inl e, fds'', h'')
                | (Inr fs, fds'', h'') \<Rightarrow>
                    (Inr (\<lparr>FParam = p, FVal = v, FPath = []\<rparr> # fs), fds'', h'')))"

text \<open>
  One case of the switch. Two path parameters would declare \<^verbatim>\<open>fileName\<close> twice in
  one block, and \<^verbatim>\<open>CloseEvent\<close> needs a field \<^verbatim>\<open>Fd\<close>: without these the emitted
  text is not a Go program.
\<close>

definition getStructCase ::
  "Env \<Rightarrow> CommonEvent \<Rightarrow> Syscall \<Rightarrow> FdMap \<Rightarrow> heap \<Rightarrow> byte list \<Rightarrow>
     (error + Event) \<times> FdMap \<times> heap" where
  "getStructCase env ce sc fds h buf =
     (if length (filter NeedsPath (Params sc)) > 1 then (Inl DoesNotCompile, fds, h)
      else
        (case decodeParams env (Pid ce) (Params sc) buf fds h of
           (Inl e, fds', h') \<Rightarrow> (Inl e, fds', h')
         | (Inr fs, fds', h') \<Rightarrow>
             if SyscallName sc = ''CloseEvent''
             then (case find (\<lambda>f. Name (FParam f) = ''Fd'') fs of
                     None \<Rightarrow> (Inl DoesNotCompile, fds', h')
                   | Some f \<Rightarrow>
                       (case asUint32 (FVal f) of
                          None \<Rightarrow> (Inl DoesNotCompile, fds', h')
                        | Some fd \<Rightarrow>
                            (Inr (SyscallEvent (SyscallName sc) fs),
                             Delete fds' (ucast (Pid ce)) fd, h')))
             else (Inr (SyscallEvent (SyscallName sc) fs), fds', h')))"

subsection \<open>getStructEpilogue: descriptor-install, connection and default cases\<close>

text \<open>
  \<^verbatim>\<open>binary.Read(buf, binary.LittleEndian, &ev)\<close> of the four \<^verbatim>\<open>uint64\<close> fields:
  32 bytes, \<^verbatim>\<open>io.EOF\<close> on an empty buffer, \<^verbatim>\<open>io.ErrUnexpectedEOF\<close> on a short one.
\<close>

definition readFileEvent :: "byte list \<Rightarrow> error + (uint64 \<times> uint64 \<times> uint64 \<times> uint64)" where
  "readFileEvent buf =
     (if length buf = 0 then Inl EOF
      else if length buf < 32 then Inl ErrUnexpectedEOF
      else Inr (leWord (take 8 buf), leWord (take 8 (drop 8 buf)),
                leWord (take 8 (drop 16 buf)), leWord (take 8 (drop 24 buf))))"

definition fdInstallName :: "Env \<Rightarrow> int64 \<Rightarrow> uint64 \<Rightarrow> string" where
  "fdInstallName env pid fd =
     (case procLookupPath env (ucast pid) (ucast fd) of
        None \<Rightarrow> ''unknown''
      | Some name \<Rightarrow> name)"

definition fdInstall ::
  "Env \<Rightarrow> CommonEvent \<Rightarrow> FdMap \<Rightarrow> heap \<Rightarrow> byte list \<Rightarrow> (error + Event) \<times> FdMap \<times> heap" where
  "fdInstall env ce fds h buf =
     (case readFileEvent buf of
        Inl err \<Rightarrow> (Inl err, fds, h)
      | Inr (fd, ino, major, minor) \<Rightarrow>
          (let name = fdInstallName env (Pid ce) fd;
               fdInfo = \<lparr>Path = name, Ino = ino, Major = major, Minor = minor\<rparr>;
               fds' = (if HasPrefix (Path fdInfo) ''/''
                       then Put fds (ucast (Pid ce)) (ucast fd) fdInfo
                       else fds)
           in (Inr (FileEvent fd ino major minor), fds', h)))"

definition connectV4 :: "byte list \<Rightarrow> error + Event" where
  "connectV4 buf =
     (case Next buf 4 of (b1, buf1) \<Rightarrow>
      case Uint32 b1 of Inl e \<Rightarrow> Inl e | Inr saddr \<Rightarrow>
      case Next buf1 4 of (b2, buf2) \<Rightarrow>
      case Uint32 b2 of Inl e \<Rightarrow> Inl e | Inr daddr \<Rightarrow>
      case Next buf2 2 of (b3, buf3) \<Rightarrow>
      case Uint16 b3 of Inl e \<Rightarrow> Inl e | Inr sport \<Rightarrow>
      case Next buf3 2 of (b4, buf4) \<Rightarrow>
      case Uint16 b4 of Inl e \<Rightarrow> Inl e | Inr dport \<Rightarrow>
      case Next buf4 4 of (b5, buf5) \<Rightarrow>
      case Uint32 b5 of Inl e \<Rightarrow> Inl e | Inr netns \<Rightarrow>
        Inr (ConnectV4Event saddr daddr sport dport netns))"

definition connectV6 :: "byte list \<Rightarrow> error + Event" where
  "connectV6 buf =
     (case Next buf 16 of (b1, buf1) \<Rightarrow>
      case Next buf1 16 of (b2, buf2) \<Rightarrow>
      case Next buf2 2 of (b3, buf3) \<Rightarrow>
      case Uint16 b3 of Inl e \<Rightarrow> Inl e | Inr sport \<Rightarrow>
      case Next buf3 2 of (b4, buf4) \<Rightarrow>
      case Uint16 b4 of Inl e \<Rightarrow> Inl e | Inr dport \<Rightarrow>
      case Next buf4 4 of (b5, buf5) \<Rightarrow>
      case Uint32 b5 of Inl e \<Rightarrow> Inl e | Inr netns \<Rightarrow>
        Inr (ConnectV6Event (copyInto 16 b1) (copyInto 16 b2) sport dport netns))"

subsection \<open>GetStruct\<close>

text \<open>
  The whole switch, for the list of compiled decoder schemas the cases were emitted from:
  the emitted cases by \<^verbatim>\<open>RawName\<close>, then the fixed names, then \<^verbatim>\<open>default\<close>. (Go
  rejects a switch with one string twice, so the order of the cases is immaterial.)
  The result carries the table and the heap after the call.
\<close>

definition fixedEventNames :: "string list" where
  "fixedEventNames =
     [''fd_install'', ''close_v4'', ''accept_v4'', ''connect_v4'',
      ''close_v6'', ''accept_v6'', ''connect_v6'']"

definition GetStruct ::
  "Syscall list \<Rightarrow> Env \<Rightarrow> CommonEvent \<Rightarrow> FdMap \<Rightarrow> heap \<Rightarrow> byte list \<Rightarrow>
     (error + Event) \<times> FdMap \<times> heap" where
  "GetStruct goSyscalls env ce fds h buf =
     (case find (\<lambda>sc. RawName sc = EventName ce) goSyscalls of
        Some sc \<Rightarrow> getStructCase env ce sc fds h buf
      | None \<Rightarrow>
          if EventName ce = ''fd_install'' then fdInstall env ce fds h buf
          else if EventName ce = ''close_v4'' \<or> EventName ce = ''accept_v4''
                  \<or> EventName ce = ''connect_v4''
          then (connectV4 buf, fds, h)
          else if EventName ce = ''close_v6'' \<or> EventName ce = ''accept_v6''
                  \<or> EventName ce = ''connect_v6''
          then (connectV6 buf, fds, h)
          else (Inr DefaultEvent, fds, h))"

section \<open>The schema compiler\<close>

subsection \<open>Type mapping tables\<close>

text \<open>
  The three \<^verbatim>\<open>map[string]string\<close> literals, entry by entry
  (\<^verbatim>\<open>fmt.Sprintf("[%d]byte", maxBufferSize)\<close> is \<^verbatim>\<open>[256]byte\<close>). Reading a Go map
  at a key it does not hold yields the zero value, the empty string.
\<close>

definition maxBufferSize :: nat where
  "maxBufferSize = 256"

definition protoTypeConversions :: "(string \<times> string) list" where
  "protoTypeConversions =
    [(''BpfAttr'', ''todo''),
     (''CapUserData'', ''todo''),
     (''CapUserHeader'', ''todo''),
     (''FileHandle'', ''todo''),
     (''GetCPUCache'', ''todo''),
     (''IoCb'', ''todo''),
     (''IoEvent'', ''todo''),
     (''Itimerspec'', ''todo''),
     (''KexecSegment'', ''todo''),
     (''MqAttr'', ''todo''),
     (''Msgbuf'', ''todo''),
     (''Pollfd'', ''todo''),
     (''RobustListHead'', ''todo''),
     (''SigSet'', ''todo''),
     (''Sigaction'', ''todo''),
     (''Sigevent'', ''todo''),
     (''Stack'', ''todo''),
     (''SysctlArgs'', ''todo''),
     (''Timezone'', ''todo''),
     (''[256]byte'', ''bytes''),
     (''[]IoCb'', ''todo''),
     (''[]RobustListHead'', ''todo''),
     (''int16'', ''int32''),
     (''int32'', ''int32''),
     (''int64'', ''int64''),
     (''syscall.Dirent'', ''todo''),
     (''syscall.EpollEvent'', ''todo''),
     (''syscall.FdSet'', ''todo''),
     (''syscall.Iovec'', ''todo''),
     (''syscall.Msghdr'', ''todo''),
     (''syscall.Rlimit'', ''todo''),
     (''syscall.Rusage'', ''todo''),
     (''syscall.Sockaddr'', ''todo''),
     (''syscall.Stat_t'', ''todo''),
     (''syscall.Statfs_t'', ''todo''),
     (''syscall.Sysinfo_t'', ''todo''),
     (''syscall.Timespec'', ''todo''),
     (''syscall.Timeval'', ''todo''),
     (''syscall.Timex'', ''todo''),
     (''syscall.Tms'', ''todo''),
     (''syscall.Ustat_t'', ''todo''),
     (''syscall.Utimbuf'', ''todo''),
     (''syscall.Utsname'', ''todo''),
     (''uint16'', ''uint32''),
     (''uint32'', ''uint32''),
     (''uint64'', ''uint64''),
     (''unsafe.Pointer'', ''todo'')]"

definition goTypeConversions :: "(string \<times> string) list" where
  "goTypeConversions =
    [(''aio_context_t *'', ''uint64''),
     (''aio_context_t'', ''uint64''),
     (''cap_user_data_t'', ''CapUserData''),
     (''cap_user_header_t'', ''CapUserHeader''),
     (''char *'', ''[256]byte''),
     (''const cap_user_data_t'', ''CapUserData''),
     (''const char *'', ''[256]byte''),
     (''const clockid_t'', ''uint32''),
     (''const int *'', ''int64''),
     (''const sigset_t *'', ''SigSet''),
     (''const stack_t *'', ''Stack''),
     (''const struct iovec *'', ''syscall.Iovec''),
     (''const struct itimerspec *'', ''Itimerspec''),
     (''const struct mq_attr *'', ''MqAttr''),
     (''const struct rlimit64 *'', ''syscall.Rlimit''),
     (''const struct sigaction *'', ''Sigaction''),
     (''const struct sigevent *'', ''Sigevent''),
     (''const struct timespec *'', ''syscall.Timespec''),
     (''const unsigned long *'', ''uint64''),
     (''const void * *'', ''unsafe.Pointer''),
     (''const void *'', ''unsafe.Pointer''),
     (''fd_set *'', ''syscall.FdSet''),
     (''gid_t *'', ''uint64''),
     (''gid_t'', ''uint32''),
     (''int *'', ''int64''),
     (''int'', ''int64''),
     (''key_serial_t'', ''int32''),
     (''key_t'', ''int64''),
     (''loff_t *'', ''int64''),
     (''loff_t'', ''int64''),
     (''long'', ''int64''),
     (''mqd_t'', ''int64''),
     (''off_t'', ''int64''),
     (''pid_t'', ''int64''),
     (''qid_t'', ''uint32''),
     (''__s32'', ''uint32''),
     (''siginfo_t *'', ''unsafe.Pointer''),
     (''sigset_t *'', ''SigSet''),
     (''size_t *'', ''int64''),
     (''size_t'', ''int64''),
     (''stack_t *'', ''Stack''),
     (''struct epoll_event *'', ''syscall.EpollEvent''),
     (''struct file_handle *'', ''FileHandle''),
     (''struct getcpu_cache *'', ''GetCPUCache''),
     (''struct iocb * *'', ''IoCb''),
     (''struct iocb *'', ''[]IoCb''),
     (''struct io_event *'', ''IoEvent''),
     (''struct itimerspec *'', ''Itimerspec''),
     (''struct itimerval *'', ''Itimerspec''),
     (''struct kexec_segment *'', ''KexecSegment''),
     (''struct linux_dirent64 *'', ''syscall.Dirent''),
     (''struct linux_dirent *'', ''syscall.Dirent''),
     (''struct mmsghdr *'', ''syscall.Msghdr''),
     (''struct mq_attr *'', ''MqAttr''),
     (''struct msgbuf *'', ''Msgbuf''),
     (''struct msqid_ds *'', ''unsafe.Pointer''),
     (''struct new_utsname *'', ''syscall.Utsname''),
     (''struct perf_event_attr *'', ''unsafe.Pointer''),
     (''struct pollfd *'', ''Pollfd''),
     (''struct rlimit64 *'', ''syscall.Rlimit''),
     (''struct rlimit *'', ''syscall.Rlimit''),
     (''struct robust_list_head * *'', ''[]RobustListHead''),
     (''struct robust_list_head *'', ''RobustListHead''),
     (''struct rusage *'', ''syscall.Rusage''),
     (''struct sched_attr *'', ''unsafe.Pointer''),
     (''struct sched_param *'', ''unsafe.Pointer''),
     (''struct sembuf *'', ''unsafe.Pointer''),
     (''struct shmid_ds *'', ''unsafe.Pointer''),
     (''struct sigaction *'', ''unsafe.Pointer''),
     (''struct sigevent *'', ''unsafe.Pointer''),
     (''struct siginfo *'', ''unsafe.Pointer''),
     (''struct sockaddr *'', ''syscall.Sockaddr''),
     (''struct stat *'', ''syscall.Stat_t''),
     (''struct statfs *'', ''syscall.Statfs_t''),
     (''struct __sysctl_args *'', ''SysctlArgs''),
     (''struct sysinfo *'', ''syscall.Sysinfo_t''),
     (''struct timespec *'', ''syscall.Timespec''),
     (''struct timeval *'', ''syscall.Timeval''),
     (''struct timex *'', ''syscall.Timex''),
     (''struct timezone *'', ''Timezone''),
     (''struct tms *'', ''syscall.Tms''),
     (''struct user_msghdr *'', ''unsafe.Pointer''),
     (''struct ustat *'', ''syscall.Ustat_t''),
     (''struct utimbuf *'', ''syscall.Utimbuf''),
     (''timer_t *'', ''int64''),
     (''timer_t'', ''int64''),
     (''time_t *'', ''int64''),
     (''u32 *'', ''uint32''),
     (''u32'', ''uint32''),
     (''u64'', ''uint64''),
     (''__u64'', ''uint64''),
     (''uid_t *'', ''uint64''),
     (''uid_t'', ''uint32''),
     (''umode_t'', ''uint64''),
     (''union bpf_attr *'', ''BpfAttr''),
     (''unsigned char *'', ''[256]byte''),
     (''unsigned *'', ''uint64''),
     (''unsigned'', ''uint64''),
     (''unsigned int *'', ''uint64''),
     (''unsigned int'', ''uint64''),
     (''unsigned long *'', ''uint64''),
     (''unsigned long'', ''uint64''),
     (''void *'', ''unsafe.Pointer'')]"

definition cTypeConversions :: "(string \<times> string) list" where
  "cTypeConversions =
    [(''aio_context_t *'', ''u64''),
     (''aio_context_t'', ''aio_context_t''),
     (''cap_user_data_t'', ''cap_user_data_t''),
     (''cap_user_header_t'', ''cap_user_header_t''),
     (''char *'', ''char''),
     (''const cap_user_data_t'', ''cap_user_data_t''),
     (''const char *'', ''char''),
     (''const clockid_t'', ''u32''),
     (''const int *'', ''s64''),
     (''const sigset_t *'', ''u64''),
     (''const stack_t *'', ''u64''),
     (''const struct iovec *'', ''u64''),
     (''const struct itimerspec *'', ''u64''),
     (''const struct mq_attr *'', ''u64''),
     (''const struct rlimit64 *'', ''u64''),
     (''const struct sigaction *'', ''u64''),
     (''const struct sigevent *'', ''u64''),
     (''const struct timespec *'', ''u64''),
     (''const unsigned long *'', ''u64''),
     (''const void * *'', ''u64''),
     (''const void *'', ''u64''),
     (''fd_set *'', ''u64''),
     (''gid_t *'', ''u64''),
     (''gid_t'', ''gid_t''),
     (''int *'', ''u64''),
     (''int'', ''s64''),
     (''key_serial_t'', ''key_serial_t''),
     (''key_t'', ''key_t''),
     (''loff_t *'', ''s64''),
     (''loff_t'', ''loff_t''),
     (''long'', ''s64''),
     (''mqd_t'', ''mdq_t''),
     (''off_t'', ''off_t''),
     (''pid_t'', ''pid_t''),
     (''qid_t'', ''qid_t''),
     (''__s32'', ''s32''),
     (''siginfo_t *'', ''u64''),
     (''sigset_t *'', ''u64''),
     (''size_t *'', ''u64''),
     (''size_t'', ''int64_t''),
     (''stack_t *'', ''u64''),
     (''struct epoll_event *'', ''u64''),
     (''struct file_handle *'', ''u64''),
     (''struct getcpu_cache *'', ''u64''),
     (''struct iocb * *'', ''u64''),
     (''struct iocb *'', ''u64''),
     (''struct io_event *'', ''u64''),
     (''struct itimerspec *'', ''u64''),
     (''struct itimerval *'', ''u64''),
     (''struct kexec_segment *'', ''u64''),
     (''struct linux_dirent64 *'', ''u64''),
     (''struct linux_dirent *'', ''u64''),
     (''struct mmsghdr *'', ''u64''),
     (''struct mq_attr *'', ''u64''),
     (''struct msgbuf *'', ''u64''),
     (''struct msqid_ds *'', ''u64''),
     (''struct new_utsname *'', ''u64''),
     (''struct perf_event_attr *'', ''u64''),
     (''struct pollfd *'', ''u64''),
     (''struct rlimit64 *'', ''u64''),
     (''struct rlimit *'', ''u64''),
     (''struct robust_list_head * *'', ''u64''),
     (''struct robust_list_head *'', ''u64''),
     (''struct rusage *'', ''u64''),
     (''struct sched_attr *'', ''u64''),
     (''struct sched_param *'', ''u64''),
     (''struct sembuf *'', ''u64''),
     (''struct shmid_ds *'', ''u64''),
     (''struct sigaction *'', ''u64''),
     (''struct sigevent *'', ''u64''),
     (''struct siginfo *'', ''u64''),
     (''struct sockaddr *'', ''u64''),
     (''struct stat *'', ''u64''),
     (''struct statfs *'', ''u64''),
     (''struct __sysctl_args *'', ''u64''),
     (''struct sysinfo *'', ''u64''),
     (''struct timespec *'', ''u64''),
     (''struct timeval *'', ''u64''),
     (''struct timex *'', ''u64''),
     (''struct timezone *'', ''u64''),
     (''struct tms *'', ''u64''),
     (''struct user_msghdr *'', ''u64''),
     (''struct ustat *'', ''u64''),
     (''struct utimbuf *'', ''u64''),
     (''timer_t *'', ''u64''),
     (''timer_t'', ''timer_t''),
     (''time_t *'', ''u64''),
     (''u32 *'', ''s64''),
     (''u32'', ''u32''),
     (''u64'', ''u64''),
     (''__u64'', ''u64''),
     (''uid_t *'', ''u64''),
     (''uid_t'', ''uid_t''),
     (''umode_t'', ''u64''),
     (''union bpf_attr *'', ''u64''),
     (''unsigned char *'', ''char''),
     (''unsigned *'', ''u64''),
     (''unsigned'', ''unsigned''),
     (''unsigned int *'', ''u64''),
     (''unsigned int'', ''u64''),
     (''unsigned long *'', ''u64''),
     (''unsigned long'', ''unsigned long''),
     (''void *'', ''u64'')]"

definition tableLookup :: "(string \<times> string) list \<Rightarrow> string \<Rightarrow> string" where
  "tableLookup t k = (case map_of t k of None \<Rightarrow> [] | Some v \<Rightarrow> v)"

definition consideredSyscalls :: "string list" where
  "consideredSyscalls =
     [''open'', ''close'', ''read'', ''write'', ''mkdir'', ''mkdirat'',
      ''chmod'', ''fchmod'', ''fchmodat'', ''chown'', ''fchown'', ''fchownat'']"

subsection \<open>ToCamel\<close>

text \<open>
  Characters are compared by their codes. The Go loop ranges over runes; a rune outside
  ASCII is in none of the classes and clears \<^verbatim>\<open>capNext\<close>, and so does each of its
  bytes here, so ranging over bytes gives the same string.
\<close>

definition isUpperAZ :: "char \<Rightarrow> bool" where
  "isUpperAZ v = (65 \<le> (of_char v :: nat) \<and> (of_char v :: nat) \<le> 90)"

definition isLowerAZ :: "char \<Rightarrow> bool" where
  "isLowerAZ v = (97 \<le> (of_char v :: nat) \<and> (of_char v :: nat) \<le> 122)"

definition isDigit09 :: "char \<Rightarrow> bool" where
  "isDigit09 v = (48 \<le> (of_char v :: nat) \<and> (of_char v :: nat) \<le> 57)"

definition toUpperAZ :: "char \<Rightarrow> char" where
  "toUpperAZ v = char_of ((of_char v :: nat) - 32)"

text \<open>\<^verbatim>\<open>strings.Trim(s, " ")\<close>.\<close>

definition trimSpaces :: "string \<Rightarrow> string" where
  "trimSpaces s =
     rev (dropWhile (\<lambda>c. c = CHR '' '') (rev (dropWhile (\<lambda>c. c = CHR '' '') s)))"

fun camelLoop :: "bool \<Rightarrow> string \<Rightarrow> string" where
  "camelLoop capNext [] = []"
| "camelLoop capNext (v # vs) =
     (if isUpperAZ v \<or> isDigit09 v then [v] else [])
     @ (if isLowerAZ v then (if capNext then [toUpperAZ v] else [v]) else [])
     @ camelLoop (v = CHR ''_'' \<or> v = CHR '' '') vs"

definition ToCamel :: "string \<Rightarrow> string" where
  "ToCamel s = camelLoop True (trimSpaces s)"

subsection \<open>The line pattern\<close>

text \<open>
  \<^verbatim>\<open>\s+field:(?P<type>.*?) (?P<name>[a-z_0-9]+);.*\<close>, matched as Go's
  \<^verbatim>\<open>regexp\<close> does: the leftmost match, and among those the one a backtracking
  matcher finds first. \<open>reFind\<close> returns the two named groups of the first match, which
  is all that \<^verbatim>\<open>parseLine\<close> reads of \<^verbatim>\<open>FindAllStringSubmatch(l, -1)\<close>.

  \<^item> \<^verbatim>\<open>\s+\<close> must take the whole run of white space: given back one character, the
    next one to match \<^verbatim>\<open>f\<close> would be white space.
  \<^item> \<^verbatim>\<open>.*?\<close> is lazy: at each position the rest of the pattern is tried first, and
    only when it fails is one more character (any but a newline) taken into the type.
  \<^item> \<^verbatim>\<open>[a-z_0-9]+\<close> must take the whole run too, since \<^verbatim>\<open>;\<close> is not in the class.
  \<^item> the final \<^verbatim>\<open>.*\<close> always matches.
\<close>

definition isSpaceRe :: "char \<Rightarrow> bool" where
  "isSpaceRe c =
     (c = CHR 0x09 \<or> c = CHR 0x0A \<or> c = CHR 0x0C \<or> c = CHR 0x0D \<or> c = CHR '' '')"

definition isNameChar :: "char \<Rightarrow> bool" where
  "isNameChar c = (isLowerAZ c \<or> c = CHR ''_'' \<or> isDigit09 c)"

definition matchNameSemi :: "string \<Rightarrow> string option" where
  "matchNameSemi cs =
     (let nm = takeWhile isNameChar cs
      in if nm \<noteq> [] \<and> take 1 (dropWhile isNameChar cs) = '';'' then Some nm else None)"

fun matchType :: "string \<Rightarrow> (string \<times> string) option" where
  "matchType [] = None"
| "matchType (c # cs) =
     (case (if c = CHR '' '' then matchNameSemi cs else None) of
        Some nm \<Rightarrow> Some ([], nm)
      | None \<Rightarrow>
          if c = CHR 0x0A then None
          else (case matchType cs of
                  None \<Rightarrow> None
                | Some (ty, nm) \<Rightarrow> Some (c # ty, nm)))"

definition matchAt :: "string \<Rightarrow> (string \<times> string) option" where
  "matchAt s =
     (let r = dropWhile isSpaceRe s
      in if length r < length s \<and> take 6 r = ''field:'' then matchType (drop 6 r)
         else None)"

fun reFind :: "string \<Rightarrow> (string \<times> string) option" where
  "reFind [] = None"
| "reFind (c # cs) =
     (case matchAt (c # cs) of
        Some r \<Rightarrow> Some r
      | None \<Rightarrow> reFind cs)"

subsection \<open>parseLine\<close>

text \<open>
  The result is the three pointers and the error; \<open>None\<close> is \<^verbatim>\<open>nil\<close>. \<open>mp\<close> is
  the map from group names to the matched groups (its entry for the unnamed whole match
  is never read).
\<close>

definition parseLine ::
  "string \<Rightarrow> int \<Rightarrow> error + (Param option \<times> Param option \<times> Param option)" where
  "parseLine l idx =
     (case reFind l of
        None \<Rightarrow> Inr (None, None, None)
      | Some (ty, nm) \<Rightarrow>
          (let mp = [''type'' \<mapsto> ty, ''name'' \<mapsto> nm]
           in case mp ''type'' of
                None \<Rightarrow> Inr (None, None, None)
              | Some mpType \<Rightarrow>
                  (case mp ''name'' of
                     None \<Rightarrow> Inr (None, None, None)
                   | Some mpName \<Rightarrow>
                       if mpName = ''__syscall_nr'' then Inr (None, None, None)
                       else
                         (let goParam =
                                \<lparr>Position = 0, Name = ToCamel mpName,
                                 Type = tableLookup goTypeConversions mpType,
                                 Suffix = [], HashFunc = [],
                                 NeedsPath = (ToCamel mpName = ''Fd''
                                              \<or> ToCamel mpName = ''Dfd'')\<rparr>;
                              cParam =
                                \<lparr>Position = idx - 8, Name = mpName,
                                 Type = tableLookup cTypeConversions mpType,
                                 Suffix = (if tableLookup cTypeConversions mpType = ''char''
                                           then ''[256]'' else []),
                                 HashFunc = [], NeedsPath = False\<rparr>;
                              protoParam =
                                \<lparr>Position = 0, Name = mpName,
                                 Type = tableLookup protoTypeConversions (Type goParam),
                                 Suffix = [], HashFunc = [], NeedsPath = False\<rparr>
                          in Inr (Some goParam, Some cParam, Some protoParam)))))"

subsection \<open>parseSyscall\<close>

text \<open>\<^verbatim>\<open>strings.Split(format, "\n")\<close>: always at least one part.\<close>

fun splitNewline :: "string \<Rightarrow> string list" where
  "splitNewline [] = [[]]"
| "splitNewline (c # cs) =
     (if c = CHR 0x0A then [] # splitNewline cs
      else (case splitNewline cs of
              [] \<Rightarrow> [[c]]
            | l # ls \<Rightarrow> (c # l) # ls))"

definition appendOpt :: "'a list \<Rightarrow> 'a option \<Rightarrow> 'a list" where
  "appendOpt xs p = (case p of None \<Rightarrow> xs | Some x \<Rightarrow> xs @ [x])"

text \<open>
  The loop over the lines, with the index, the flag \<^verbatim>\<open>skipped\<close> and the three slices.
  The first empty line sets the flag and is itself given to \<^verbatim>\<open>parseLine\<close>.
\<close>

fun parseLines ::
  "bool \<Rightarrow> int \<Rightarrow> string list \<Rightarrow> Param list \<times> Param list \<times> Param list \<Rightarrow>
     error + (Param list \<times> Param list \<times> Param list)" where
  "parseLines skipped idx [] acc = Inr acc"
| "parseLines skipped idx (line # rest) (goParams, cParams, protoParams) =
     (if \<not> skipped \<and> length line \<noteq> 0
      then parseLines skipped (idx + 1) rest (goParams, cParams, protoParams)
      else (case parseLine line idx of
              Inl err \<Rightarrow> Inl err
            | Inr (gp, cp, protop) \<Rightarrow>
                parseLines True (idx + 1) rest
                  (appendOpt goParams gp, appendOpt cParams cp, appendOpt protoParams protop)))"

definition parseSyscall :: "string \<Rightarrow> string \<Rightarrow> error + (Syscall \<times> Syscall \<times> Syscall)" where
  "parseSyscall name format =
     (case parseLines False 0 (splitNewline format) ([], [], []) of
        Inl err \<Rightarrow> Inl err
      | Inr (goParams, cParams, protoParams) \<Rightarrow>
          Inr (\<lparr>SyscallName = ToCamel name @ ''Event'', RawName = name, Params = goParams\<rparr>,
               \<lparr>SyscallName = name, RawName = name, Params = cParams\<rparr>,
               \<lparr>SyscallName = ''Protobuf'' @ ToCamel name @ ''Event'', RawName = name,
                Params = protoParams\<rparr>))"

subsection \<open>GatherSyscalls\<close>

text \<open>
  The file system is a parameter. \<^verbatim>\<open>filepath.Walk\<close> is given as the sequence of calls
  it makes to the callback, one \<open>WalkEntry\<close> each: the path, the entry's name, whether it
  is a directory, and the error \<^verbatim>\<open>Walk\<close> passes when it could not stat the entry or
  list the directory (so a missing or unreadable \<^verbatim>\<open>syscallsPath\<close> is one entry with an
  error). \<open>openFormat eventName\<close> is what opening and reading
  \<^verbatim>\<open>syscallsPath/eventName/format\<close> gives. \<^verbatim>\<open>Walk\<close> stops at the first error the
  callback returns and returns it.
\<close>

record WalkEntry =
  WPath :: string
  WName :: string
  WIsDir :: bool
  WErr :: "string option"

datatype formatFile = OpenFails | ReadFails string | Contents string

definition TrimPrefix :: "string \<Rightarrow> string \<Rightarrow> string" where
  "TrimPrefix s prefix = (if HasPrefix s prefix then drop (length prefix) s else s)"

definition walkFn ::
  "(string \<Rightarrow> formatFile) \<Rightarrow> WalkEntry \<Rightarrow> Syscall list \<times> Syscall list \<times> Syscall list \<Rightarrow>
     error + (Syscall list \<times> Syscall list \<times> Syscall list)" where
  "walkFn openFormat e acc =
     (case WErr e of
        Some msg \<Rightarrow> Inl (LstatError msg)
      | None \<Rightarrow>
          if WPath e = ''syscalls'' then Inr acc
          else if \<not> WIsDir e then Inr acc
          else
            (let eventName = WName e
             in if HasPrefix eventName ''sys_exit'' then Inr acc
                else
                  (let syscallName = TrimPrefix eventName ''sys_enter_''
                   in if syscallName \<notin> set consideredSyscalls then Inr acc
                      else (case openFormat eventName of
                              OpenFails \<Rightarrow> Inr acc
                            | ReadFails msg \<Rightarrow> Inl (ReadError msg)
                            | Contents formatBytes \<Rightarrow>
                                (case parseSyscall syscallName formatBytes of
                                   Inl err \<Rightarrow> Inl err
                                 | Inr (goSyscall, cSyscall, protoSyscall) \<Rightarrow>
                                     (case acc of
                                        (goSyscalls, cSyscalls, protoSyscalls) \<Rightarrow>
                                          Inr (goSyscalls @ [goSyscall],
                                               cSyscalls @ [cSyscall],
                                               protoSyscalls @ [protoSyscall])))))))"

fun Walk ::
  "(string \<Rightarrow> formatFile) \<Rightarrow> WalkEntry list \<Rightarrow> Syscall list \<times> Syscall list \<times> Syscall list \<Rightarrow>
     error + (Syscall list \<times> Syscall list \<times> Syscall list)" where
  "Walk openFormat [] acc = Inr acc"
| "Walk openFormat (e # es) acc =
     (case walkFn openFormat e acc of
        Inl err \<Rightarrow> Inl err
      | Inr acc' \<Rightarrow> Walk openFormat es acc')"

definition GatherSyscalls ::
  "(string \<Rightarrow> formatFile) \<Rightarrow> WalkEntry list \<Rightarrow>
     error + (Syscall list \<times> Syscall list \<times> Syscall list)" where
  "GatherSyscalls openFormat entries =
     (case Walk openFormat entries ([], [], []) of
        Inl err \<Rightarrow> Inl (ErrorWalking err)
      | Inr (goSyscalls, cSyscalls, protoSyscalls) \<Rightarrow>
          Inr (goSyscalls, cSyscalls, protoSyscalls))"

subsection \<open>Sample inputs\<close>

text \<open>
  The format file of \<^verbatim>\<open>sys_enter_open\<close> as the kernel prints it; a format text
  with a field of a type that none of the tables has; and a tracing directory in which
  \<^verbatim>\<open>sys_enter_open/format\<close> is readable, \<^verbatim>\<open>sys_enter_read/format\<close> opens but
  cannot be read, and no other format file can be opened.
\<close>

definition sysEnterOpenFormat :: string where
  "sysEnterOpenFormat =
     ''name: sys_enter_open'' @ [CHR 0x0A] @
     ''ID: 497'' @ [CHR 0x0A] @
     ''format:'' @ [CHR 0x0A] @
     CHR 0x09 # ''field:unsigned short common_type;'' @ CHR 0x09 # ''offset:0;'' @ CHR 0x09 # ''size:2;'' @ CHR 0x09 # ''signed:0;'' @ [CHR 0x0A] @
     CHR 0x09 # ''field:unsigned char common_flags;'' @ CHR 0x09 # ''offset:2;'' @ CHR 0x09 # ''size:1;'' @ CHR 0x09 # ''signed:0;'' @ [CHR 0x0A] @
     CHR 0x09 # ''field:unsigned char common_preempt_count;'' @ CHR 0x09 # ''offset:3;'' @ CHR 0x09 # ''size:1;'' @ CHR 0x09 # ''signed:0;'' @ [CHR 0x0A] @
     CHR 0x09 # ''field:int common_pid;'' @ CHR 0x09 # ''offset:4;'' @ CHR 0x09 # ''size:4;'' @ CHR 0x09 # ''signed:1;'' @ [CHR 0x0A] @
     [CHR 0x0A] @
     CHR 0x09 # ''field:int __syscall_nr;'' @ CHR 0x09 # ''offset:8;'' @ CHR 0x09 # ''size:4;'' @ CHR 0x09 # ''signed:1;'' @ [CHR 0x0A] @
     CHR 0x09 # ''field:const char * filename;'' @ CHR 0x09 # ''offset:16;'' @ CHR 0x09 # ''size:8;'' @ CHR 0x09 # ''signed:0;'' @ [CHR 0x0A] @
     CHR 0x09 # ''field:int flags;'' @ CHR 0x09 # ''offset:24;'' @ CHR 0x09 # ''size:8;'' @ CHR 0x09 # ''signed:0;'' @ [CHR 0x0A] @
     CHR 0x09 # ''field:umode_t mode;'' @ CHR 0x09 # ''offset:32;'' @ CHR 0x09 # ''size:8;'' @ CHR 0x09 # ''signed:0;'' @ [CHR 0x0A] @
     [CHR 0x0A] @
     ''print fmt: \"filename: 0x%08lx, flags: 0x%08lx, mode: 0x%08lx\", ((unsigned long)(REC->filename)), ((unsigned long)(REC->flags)), ((unsigned long)(REC->mode))'' @ [CHR 0x0A]"

definition unmappedTypeFormat :: string where
  "unmappedTypeFormat =
     ''name: sys_enter_open'' @ [CHR 0x0A] @
     ''ID: 497'' @ [CHR 0x0A] @
     ''format:'' @ [CHR 0x0A] @
     CHR 0x09 # ''field:int common_pid;'' @ CHR 0x09 # ''offset:4;'' @ CHR 0x09 # ''size:4;'' @ CHR 0x09 # ''signed:1;'' @ [CHR 0x0A] @
     [CHR 0x0A] @
     CHR 0x09 # ''field:int __syscall_nr;'' @ CHR 0x09 # ''offset:8;'' @ CHR 0x09 # ''size:4;'' @ CHR 0x09 # ''signed:1;'' @ [CHR 0x0A] @
     CHR 0x09 # ''field:const char *const * argv;'' @ CHR 0x09 # ''offset:16;'' @ CHR 0x09 # ''size:8;'' @ CHR 0x09 # ''signed:0;'' @ [CHR 0x0A]"

definition sampleFormats :: "string \<Rightarrow> formatFile" where
  "sampleFormats eventName =
     (if eventName = ''sys_enter_open'' then Contents sysEnterOpenFormat
      else if eventName = ''sys_enter_read'' then ReadFails ''input/output error''
      else OpenFails)"

text \<open>
  A decoder schema list with \<^verbatim>\<open>fchmod\<close>, and an environment in which every
  descriptor links to \<^verbatim>\<open>/etc/passwd\<close> and every stat fails with \<^verbatim>\<open>ENOENT\<close>.
\<close>

definition fchmodSyscalls :: "Syscall list" where
  "fchmodSyscalls =
     [\<lparr>SyscallName = ''FchmodEvent'', RawName = ''fchmod'',
       Params = [\<lparr>Position = 0, Name = ''Fd'', Type = ''uint64'', Suffix = [],
                   HashFunc = [], NeedsPath = True\<rparr>,
                 \<lparr>Position = 0, Name = ''Mode'', Type = ''uint64'', Suffix = [],
                   HashFunc = [], NeedsPath = False\<rparr>]\<rparr>]"

definition deletedFileEnv :: Env where
  "deletedFileEnv =
     \<lparr>statRoot = (\<lambda>pid path. Inl ENOENT),
      procLookupPath = (\<lambda>pid fd. Some ''/etc/passwd''),
      quoted = (\<lambda>s. CHR 0x22 # s @ [CHR 0x22])\<rparr>"

section \<open>Properties\<close>

subsection \<open>FdMap\<close>

lemma Get_table: "fst (snd (Get f h pid fd)) = f"
  by (simp add: Get_def Let_def split: option.splits)

lemma Put_items:
  "items (Put f pid fd info) pid =
     Some ((case items f pid of None \<Rightarrow> Map.empty | Some m \<Rightarrow> m)(fd \<mapsto> info))"
  by (simp add: Put_def Let_def split: option.splits)

lemma Put_items_other: "pid' \<noteq> pid \<Longrightarrow> items (Put f pid fd info) pid' = items f pid'"
  by (simp add: Put_def Let_def split: option.splits)

lemma Get_found:
  "items f pid = Some inner \<Longrightarrow> inner fd = Some info \<Longrightarrow>
     Get f h pid fd = ((Some (length h), True), f, h @ [info])"
  by (simp add: Get_def)

lemma Get_missing_fd:
  "items f pid = Some inner \<Longrightarrow> inner fd = None \<Longrightarrow>
     Get f h pid fd = ((Some (length h), False), f, h @ [zeroFdInfo])"
  by (simp add: Get_def)

lemma Get_missing_pid: "items f pid = None \<Longrightarrow> Get f h pid fd = ((None, False), f, h)"
  by (simp add: Get_def)

lemma Get_not_found_iff:
  "snd (fst (Get f h pid fd)) \<longleftrightarrow> (\<exists>inner info. items f pid = Some inner \<and> inner fd = Some info)"
  by (auto simp: Get_def Let_def split: option.splits)

lemma load_append_new: "load (h @ [v]) (length h) = Some v"
  by (simp add: load_def)

text \<open>
  Claim C5. \<^verbatim>\<open>Put(pid, fd, info)\<close> followed by \<^verbatim>\<open>Get(pid, fd)\<close> reports found and
  the returned pointer leads to \<open>info\<close>; \<^verbatim>\<open>Delete(pid, fd)\<close> followed by
  \<^verbatim>\<open>Get(pid, fd)\<close> reports not found; after \<^verbatim>\<open>DeletePid(pid)\<close> every
  \<^verbatim>\<open>Get(pid, fd')\<close> reports not found, and the inner map of every other pid is the
  one it was.
\<close>

theorem FdMap_put_get_delete:
  "(case Get (Put f pid fd info) h pid fd of
      ((p, found), f', h') \<Rightarrow> found \<and> deref h' p = Some info)
   \<and> \<not> snd (fst (Get (Delete f pid fd) h pid fd))
   \<and> (\<forall>fd'. \<not> snd (fst (Get (DeletePid f pid) h pid fd')))
   \<and> (\<forall>pid'. pid' \<noteq> pid \<longrightarrow> items (DeletePid f pid) pid' = items f pid')"
proof (intro conjI allI impI)
  show "case Get (Put f pid fd info) h pid fd of
          ((p, found), f', h') \<Rightarrow> found \<and> deref h' p = Some info"
    by (simp add: Get_found [OF Put_items] deref_def load_append_new)
  show "\<not> snd (fst (Get (Delete f pid fd) h pid fd))"
    by (simp add: Get_def Delete_def Let_def split: option.splits)
  show "\<not> snd (fst (Get (DeletePid f pid) h pid fd'))" for fd'
    by (simp add: Get_def DeletePid_def)
  show "items (DeletePid f pid) pid' = items f pid'" if "pid' \<noteq> pid" for pid'
    using that by (simp add: DeletePid_def)
qed

theorem FdMap_put_get_delete_witness:
  "(1::uint32) \<noteq> 100
   \<and> items (DeletePid (Put (Put NewFdMap 100 5 \<lparr>Path = ''/a'', Ino = 7, Major = 8, Minor = 1\<rparr>)
                1 3 \<lparr>Path = ''/b'', Ino = 9, Major = 8, Minor = 2\<rparr>) 100) 1
     = items (Put (Put NewFdMap 100 5 \<lparr>Path = ''/a'', Ino = 7, Major = 8, Minor = 1\<rparr>)
                1 3 \<lparr>Path = ''/b'', Ino = 9, Major = 8, Minor = 2\<rparr>) 1
   \<and> \<not> snd (fst (Get (DeletePid (Put (Put NewFdMap 100 5 \<lparr>Path = ''/a'', Ino = 7, Major = 8, Minor = 1\<rparr>)
                1 3 \<lparr>Path = ''/b'', Ino = 9, Major = 8, Minor = 2\<rparr>) 100) [] 100 5))"
  using FdMap_put_get_delete
    [where f = "Put (Put NewFdMap 100 5 \<lparr>Path = ''/a'', Ino = 7, Major = 8, Minor = 1\<rparr>)
           1 3 \<lparr>Path = ''/b'', Ino = 9, Major = 8, Minor = 2\<rparr>"
       and pid = 100 and fd = 5 and h = "[]"
       and info = "\<lparr>Path = ''/a'', Ino = 7, Major = 8, Minor = 1\<rparr>"]
  by simp

text \<open>
  Claim C10. \<^verbatim>\<open>Get\<close> leaves the table as it was, and the pointer it returns is to a
  copy: after any value is stored through that pointer, the table is still the same and a
  second \<^verbatim>\<open>Get(pid, fd)\<close> reports the same \<^verbatim>\<open>ok\<close> and leads to the same \<open>FdInfo\<close>
  as the first one did.
\<close>

theorem Get_returns_copy:
  "(case Get f h pid fd of
      ((p, ok), f1, h1) \<Rightarrow>
        f1 = f
        \<and> (\<forall>a v. p = Some a \<longrightarrow>
              (case Get f1 (store h1 a v) pid fd of
                 ((q, ok2), f2, h2) \<Rightarrow>
                   f2 = f \<and> ok2 = ok \<and> q \<noteq> p \<and> deref h2 q = deref h1 p
                   \<and> deref h2 p = Some v)))"
  by (auto simp: Get_def Let_def deref_def load_def store_def nth_append
           split: option.splits)

theorem Get_returns_copy_witness:
  "(case Get (Put NewFdMap 100 5 \<lparr>Path = ''/a'', Ino = 7, Major = 8, Minor = 1\<rparr>) [] 100 5 of
      ((p, ok), f1, h1) \<Rightarrow>
        p = Some 0 \<and> ok
        \<and> (case Get f1 (store h1 0 \<lparr>Path = ''/evil'', Ino = 0, Major = 0, Minor = 0\<rparr>) 100 5 of
             ((q, ok2), f2, h2) \<Rightarrow>
               ok2 \<and> deref h2 q = Some \<lparr>Path = ''/a'', Ino = 7, Major = 8, Minor = 1\<rparr>
               \<and> deref h2 p = Some \<lparr>Path = ''/evil'', Ino = 0, Major = 0, Minor = 0\<rparr>))"
  using Get_returns_copy
    [where f = "Put NewFdMap 100 5 \<lparr>Path = ''/a'', Ino = 7, Major = 8, Minor = 1\<rparr>"
       and h = "[]" and pid = 100 and fd = 5]
  by (simp add: Get_def Put_def NewFdMap_def Let_def deref_def load_def store_def)

subsection \<open>Byte buffers as strings\<close>






lemma C_int_small: "0 \<le> x \<Longrightarrow> x < 2 ^ 31 \<Longrightarrow> C_int x = x"
  unfolding C_int_def by (simp add: signed_of_int signed_take_bit_int_eq_self)



lemma GoStringN_negative: "n < 0 \<Longrightarrow> GoStringN buf n = Inl NegativeLength"
  by (simp add: GoStringN_def)

lemma GoStringN_past_field:
  "int (length buf) < n \<Longrightarrow> GoStringN buf n = Inl ReadPastField"
  by (simp add: GoStringN_def)




lemma GetArgN_buffer:
  "n < length fs \<Longrightarrow> FVal (fs ! n) = Bytes buf \<Longrightarrow>
   Type (FParam (fs ! n)) = ''[256]byte'' \<Longrightarrow> bufferGo name ret buf = Inr s \<Longrightarrow>
     GetArgN (SyscallEvent name fs) (int n) ret = Inr (bytesToString s)"
  by (simp add: GetArgN_def argString_def)



text \<open>
  Without \<^verbatim>\<open>min\<close>, and without the test \<^verbatim>\<open>ret > 0\<close>, the same calls give no
  string of the field.
\<close>

lemma GoStringN_unclamped_length:
  "GoStringN [0x2F, 0x61, 0, 0x62 :: byte] (C_int 9) = Inl ReadPastField"
  by (simp add: GoStringN_def C_int_small)

lemma GoStringN_unguarded_length:
  "GoStringN [0x2F, 0x61, 0, 0x62 :: byte] (C_int (min_go (sint (- 1 :: int64)) 4)) = Inl NegativeLength"
  by (simp add: GoStringN_def C_int_def min_go_def)

subsection \<open>Path resolution\<close>

lemma resolvePath_table: "fst (snd (resolvePath env fds h pid fd)) = fds"
  by (simp add: resolvePath_def Get_def Let_def deref_def load_def split: option.splits)

lemma resolvePath_tracked:
  "items fds (ucast pid) = Some inner \<Longrightarrow> inner fd = Some info \<Longrightarrow>
   statRoot env pid (Path info) = Inr st \<Longrightarrow>
     fst (resolvePath env fds h pid fd) =
       Inr (if Ino info = StIno st \<and> Major info = drop_bit 8 (StDev st)
               \<and> Minor info = (StDev st AND 0xff)
            then Path info else ''unknown'')"
  by (simp add: resolvePath_def Get_def Let_def deref_def load_def)

lemma decodeParams_table:
  "fst (snd (decodeParams env pid ps buf fds h)) = fds"
proof (induction ps arbitrary: buf fds h)
  case Nil
  show ?case by simp
next
  case (Cons p ps)
  show ?case
  proof (cases "decodeField p buf")
    case (Inl e)
    then show ?thesis by simp
  next
    case (Inr r)
    obtain v buf' where r: "r = (v, buf')" by (cases r)
    show ?thesis
    proof (cases "NeedsPath p")
      case False
      with Inr r Cons.IH [of buf' fds h] show ?thesis
        by (auto split: prod.splits sum.splits)
    next
      case True
      show ?thesis
      proof (cases "asUint32 v")
        case None
        with Inr r True show ?thesis by simp
      next
        case (Some fd)
        obtain x fds1 h1 where rp: "resolvePath env fds h pid fd = (x, fds1, h1)"
          by (cases "resolvePath env fds h pid fd")
        with resolvePath_table [of env fds h pid fd] have "fds1 = fds" by simp
        with Inr r True Some rp Cons.IH [of buf' fds h1] show ?thesis
          by (auto split: prod.splits sum.splits)
      qed
    qed
  qed
qed

lemma decodeParams_paths:
  "decodeParams env pid ps buf fds h = (Inr fs, fds', h') \<Longrightarrow> f \<in> set fs \<Longrightarrow>
   NeedsPath (FParam f) \<Longrightarrow>
     \<exists>fd hh. asUint32 (FVal f) = Some fd \<and> fst (resolvePath env fds hh pid fd) = Inr (FPath f)"
proof (induction ps arbitrary: buf fds h fs fds' h')
  case Nil
  then show ?case by simp
next
  case (Cons p ps)
  from Cons.prems(1) obtain v buf' where df: "decodeField p buf = Inr (v, buf')"
    by (cases "decodeField p buf") (auto split: prod.splits)
  show ?case
  proof (cases "NeedsPath p")
    case False
    with df Cons.prems(1) obtain fs0 where
      rest: "decodeParams env pid ps buf' fds h = (Inr fs0, fds', h')"
      and fs: "fs = \<lparr>FParam = p, FVal = v, FPath = []\<rparr> # fs0"
      by (auto split: prod.splits sum.splits)
    from fs Cons.prems(2,3) False have "f \<in> set fs0" by auto
    from Cons.IH [OF rest this Cons.prems(3)] show ?thesis .
  next
    case True
    with df Cons.prems(1) obtain fd where fd: "asUint32 v = Some fd"
      by (cases "asUint32 v") auto
    obtain x fds1 h1 where rp: "resolvePath env fds h pid fd = (x, fds1, h1)"
      by (cases "resolvePath env fds h pid fd")
    with resolvePath_table [of env fds h pid fd] have fds1: "fds1 = fds" by simp
    from df True fd rp Cons.prems(1) obtain fileName where x: "x = Inr fileName"
      by (cases x) auto
    from df True fd rp x fds1 Cons.prems(1) obtain fs0 where
      rest: "decodeParams env pid ps buf' fds h1 = (Inr fs0, fds', h')"
      and fs: "fs = \<lparr>FParam = p, FVal = v, FPath = fileName\<rparr> # fs0"
      by (auto split: prod.splits sum.splits)
    show ?thesis
    proof (cases "f \<in> set fs0")
      case True
      from Cons.IH [OF rest this Cons.prems(3)] show ?thesis .
    next
      case False
      with fs Cons.prems(2) have "f = \<lparr>FParam = p, FVal = v, FPath = fileName\<rparr>" by simp
      with fd rp x show ?thesis by (intro exI [of _ fd] exI [of _ h]) simp
    qed
  qed
qed

lemma getStructCase_fields:
  "getStructCase env ce sc fds h buf = (Inr (SyscallEvent nm fs), fds', h') \<Longrightarrow>
     \<exists>fds1 h1. decodeParams env (Pid ce) (Params sc) buf fds h = (Inr fs, fds1, h1)"
  by (auto simp: getStructCase_def split: if_splits prod.splits sum.splits option.splits)

lemma GetStruct_syscall_fields:
  "GetStruct scs env ce fds h buf = (Inr (SyscallEvent nm fs), fds', h') \<Longrightarrow>
     \<exists>ps fds1 h1. decodeParams env (Pid ce) ps buf fds h = (Inr fs, fds1, h1)"
proof -
  assume a: "GetStruct scs env ce fds h buf = (Inr (SyscallEvent nm fs), fds', h')"
  have v4: "connectV4 buf \<noteq> Inr (SyscallEvent nm fs)"
    by (auto simp: connectV4_def split: prod.splits sum.splits)
  have v6: "connectV6 buf \<noteq> Inr (SyscallEvent nm fs)"
    by (auto simp: connectV6_def split: prod.splits sum.splits)
  have fi: "fst (fdInstall env ce fds h buf) \<noteq> Inr (SyscallEvent nm fs)"
    by (auto simp: fdInstall_def Let_def split: prod.splits sum.splits)
  show ?thesis
  proof (cases "find (\<lambda>sc. RawName sc = EventName ce) scs")
    case (Some sc)
    with a have "getStructCase env ce sc fds h buf = (Inr (SyscallEvent nm fs), fds', h')"
      by (simp add: GetStruct_def)
    from getStructCase_fields [OF this] show ?thesis by blast
  next
    case None
    with a v4 v6 fi show ?thesis
      by (auto simp: GetStruct_def split: if_splits)
  qed
qed

lemma path_field_after_successful_stat:
  assumes "GetStruct goSyscalls env ce fds h buf = (Inr (SyscallEvent nm fs), fds', h')"
    and "f \<in> set fs" and "NeedsPath (FParam f)"
    and "asUint32 (FVal f) = Some fd"
    and "items fds (ucast (Pid ce)) = Some inner" and "inner fd = Some info"
    and "statRoot env (Pid ce) (Path info) = Inr st"
  shows "FPath f =
           (if Ino info = StIno st \<and> Major info = drop_bit 8 (StDev st)
               \<and> Minor info = (StDev st AND 0xff)
            then Path info else ''unknown'')"
proof -
  from GetStruct_syscall_fields [OF assms(1)] obtain ps fds1 h1 where
    "decodeParams env (Pid ce) ps buf fds h = (Inr fs, fds1, h1)" by blast
  from decodeParams_paths [OF this assms(2,3)] assms(4) obtain hh where
    "fst (resolvePath env fds hh (Pid ce) fd) = Inr (FPath f)" by auto
  with resolvePath_tracked [OF assms(5,6,7), of hh] show ?thesis by simp
qed

lemma resolvePath_failed_stat:
  "items fds (ucast pid) = Some inner \<Longrightarrow> inner fd = Some info \<Longrightarrow>
   statRoot env pid (Path info) = Inl e \<Longrightarrow>
     fst (resolvePath env fds h pid fd) =
       Inr (if Ino info = 0 \<and> Major info = 0 \<and> Minor info = 0 then Path info
            else if e = ENOENT then ''[deleted] ('' @ quoted env (Path info) @ '')?''
            else ''unknown'')"
  by (simp add: resolvePath_def Get_def Let_def deref_def load_def zeroStat_def)

text \<open>
  Claim C2. With a tracked entry and a stat that succeeds, the path of the field is the
  recorded path exactly when inode, major and minor agree with the stat, and
  \<^verbatim>\<open>"unknown"\<close> otherwise (\<open>path_field_after_successful_stat\<close>). But the comparison
  is not in an \<^verbatim>\<open>else\<close> branch of the error test: when the stat fails it runs all
  the same, against the zeroed \<^verbatim>\<open>stat\<close>, and for an entry recorded with inode,
  major and minor 0 it puts the recorded path in place of the annotation that the
  \<^verbatim>\<open>ENOENT\<close> branch has just set (\<open>resolvePath_failed_stat\<close>). Evaluated: an
  \<^verbatim>\<open>fd_install\<close> event with identity 0, 0, 0 records \<^verbatim>\<open>/etc/passwd\<close> for pid 100
  and descriptor 5; the stat of that path fails with \<^verbatim>\<open>ENOENT\<close>; the \<^verbatim>\<open>fchmod\<close>
  event on descriptor 5 is decoded with the path \<^verbatim>\<open>/etc/passwd\<close>, although no
  identity was read that the recorded one could match.
\<close>

theorem failed_stat_reports_recorded_path:
  "fst (snd (GetStruct fchmodSyscalls deletedFileEnv
               \<lparr>Timestamp = 0, Pid = 100, Ret = 0, EventName = ''fd_install''\<rparr>
               NewFdMap []
               [5,0,0,0,0,0,0,0, 0,0,0,0,0,0,0,0, 0,0,0,0,0,0,0,0, 0,0,0,0,0,0,0,0]))
     = Put NewFdMap 100 5 \<lparr>Path = ''/etc/passwd'', Ino = 0, Major = 0, Minor = 0\<rparr>
   \<and> statRoot deletedFileEnv 100 ''/etc/passwd'' = Inl ENOENT
   \<and> fst (GetStruct fchmodSyscalls deletedFileEnv
            \<lparr>Timestamp = 0, Pid = 100, Ret = 0, EventName = ''fchmod''\<rparr>
            (Put NewFdMap 100 5 \<lparr>Path = ''/etc/passwd'', Ino = 0, Major = 0, Minor = 0\<rparr>)
            []
            [5,0,0,0,0,0,0,0, 0xA4,1,0,0,0,0,0,0])
     = Inr (SyscallEvent ''FchmodEvent''
         [\<lparr>FParam = \<lparr>Position = 0, Name = ''Fd'', Type = ''uint64'', Suffix = [],
                      HashFunc = [], NeedsPath = True\<rparr>,
           FVal = U64 5, FPath = ''/etc/passwd''\<rparr>,
          \<lparr>FParam = \<lparr>Position = 0, Name = ''Mode'', Type = ''uint64'', Suffix = [],
                      HashFunc = [], NeedsPath = False\<rparr>,
           FVal = U64 420, FPath = []\<rparr>])"
proof (intro conjI)
  show "fst (snd (GetStruct fchmodSyscalls deletedFileEnv
               \<lparr>Timestamp = 0, Pid = 100, Ret = 0, EventName = ''fd_install''\<rparr>
               NewFdMap []
               [5,0,0,0,0,0,0,0, 0,0,0,0,0,0,0,0, 0,0,0,0,0,0,0,0, 0,0,0,0,0,0,0,0]))
     = Put NewFdMap 100 5 \<lparr>Path = ''/etc/passwd'', Ino = 0, Major = 0, Minor = 0\<rparr>"
    by (simp add: GetStruct_def fchmodSyscalls_def deletedFileEnv_def fdInstall_def
          readFileEvent_def fdInstallName_def HasPrefix_def Let_def)
  show "statRoot deletedFileEnv 100 ''/etc/passwd'' = Inl ENOENT"
    by (simp add: deletedFileEnv_def)
  let ?pFd = "\<lparr>Position = 0, Name = ''Fd'', Type = ''uint64'', Suffix = [], HashFunc = [],
                NeedsPath = True\<rparr>"
  let ?pMode = "\<lparr>Position = 0, Name = ''Mode'', Type = ''uint64'', Suffix = [], HashFunc = [],
                NeedsPath = False\<rparr>"
  have d1: "decodeField ?pFd [5,0,0,0,0,0,0,0, 0xA4,1,0,0,0,0,0,0]
              = Inr (U64 5, [0xA4,1,0,0,0,0,0,0])"
    by (simp add: decodeField_def Next_def Uint64_def)
  have d2: "decodeField ?pMode [0xA4,1,0,0,0,0,0,0] = Inr (U64 420, [])"
    by (simp add: decodeField_def Next_def Uint64_def)
  show "fst (GetStruct fchmodSyscalls deletedFileEnv
            \<lparr>Timestamp = 0, Pid = 100, Ret = 0, EventName = ''fchmod''\<rparr>
            (Put NewFdMap 100 5 \<lparr>Path = ''/etc/passwd'', Ino = 0, Major = 0, Minor = 0\<rparr>)
            []
            [5,0,0,0,0,0,0,0, 0xA4,1,0,0,0,0,0,0])
     = Inr (SyscallEvent ''FchmodEvent''
         [\<lparr>FParam = ?pFd, FVal = U64 5, FPath = ''/etc/passwd''\<rparr>,
          \<lparr>FParam = ?pMode, FVal = U64 420, FPath = []\<rparr>])"
    by (simp add: GetStruct_def fchmodSyscalls_def deletedFileEnv_def getStructCase_def d1 d2
          asUint32_def resolvePath_def Get_def Put_def NewFdMap_def deref_def load_def Let_def
          zeroStat_def)
qed

subsection \<open>Dispatch\<close>

text \<open>
  Claim C8. When the header's event name is the raw name of no compiled syscall and is
  none of the fixed descriptor-install and connection names, \<^verbatim>\<open>GetStruct\<close> returns
  \<^verbatim>\<open>DefaultEvent{}\<close> with a nil error, and leaves the table and the heap alone.
\<close>

theorem default_event_for_unknown_name:
  "EventName ce \<notin> RawName ` set goSyscalls \<Longrightarrow> EventName ce \<notin> set fixedEventNames \<Longrightarrow>
     GetStruct goSyscalls env ce fds h buf = (Inr DefaultEvent, fds, h)"
proof -
  assume a: "EventName ce \<notin> RawName ` set goSyscalls"
    and b: "EventName ce \<notin> set fixedEventNames"
  from a have "find (\<lambda>sc. RawName sc = EventName ce) goSyscalls = None"
    unfolding find_None_iff by (metis imageI)
  with b show ?thesis
    by (simp add: GetStruct_def fixedEventNames_def)
qed

theorem default_event_for_unknown_name_witness:
  "''execve'' \<notin> RawName ` set [\<lparr>SyscallName = ''OpenEvent'', RawName = ''open'', Params = []\<rparr>]
   \<and> ''execve'' \<notin> set fixedEventNames
   \<and> GetStruct [\<lparr>SyscallName = ''OpenEvent'', RawName = ''open'', Params = []\<rparr>]
        \<lparr>statRoot = (\<lambda>pid path. Inl ENOENT), procLookupPath = (\<lambda>pid fd. None),
         quoted = (\<lambda>s. s)\<rparr>
        \<lparr>Timestamp = 0, Pid = 100, Ret = 0, EventName = ''execve''\<rparr>
        NewFdMap [] [1, 2, 3]
      = (Inr DefaultEvent, NewFdMap, [])"
proof -
  have a: "EventName \<lparr>Timestamp = 0, Pid = 100, Ret = 0, EventName = ''execve''\<rparr>
             \<notin> RawName ` set [\<lparr>SyscallName = ''OpenEvent'', RawName = ''open'', Params = []\<rparr>]"
    by simp
  have b: "EventName \<lparr>Timestamp = 0, Pid = 100, Ret = 0, EventName = ''execve''\<rparr>
             \<notin> set fixedEventNames"
    by (simp add: fixedEventNames_def)
  from a b default_event_for_unknown_name [OF a b] show ?thesis by simp
qed

subsection \<open>Descriptor install\<close>

lemma getStructCase_table:
  "fst (snd (getStructCase env ce sc fds h buf)) = fds
   \<or> (\<exists>fd. fst (snd (getStructCase env ce sc fds h buf)) = Delete fds (ucast (Pid ce)) fd)"
proof -
  obtain r fds1 h1 where d: "decodeParams env (Pid ce) (Params sc) buf fds h = (r, fds1, h1)"
    by (cases "decodeParams env (Pid ce) (Params sc) buf fds h")
  with decodeParams_table [of env "Pid ce" "Params sc" buf fds h] have "fds1 = fds" by simp
  with d show ?thesis
    by (auto simp: getStructCase_def split: sum.splits option.splits)
qed

lemma Delete_entry:
  "items (Delete f pid fd) p = Some inner \<Longrightarrow> inner d = Some info \<Longrightarrow>
     \<exists>inner0. items f p = Some inner0 \<and> inner0 d = Some info"
  by (auto simp: Delete_def split: option.splits if_splits)

lemma Put_entry:
  "items (Put f pid fd i) p = Some inner \<Longrightarrow> inner d = Some info \<Longrightarrow>
     info = i \<or> (\<exists>inner0. items f p = Some inner0 \<and> inner0 d = Some info)"
  by (auto simp: Put_def Let_def split: option.splits if_splits)

lemma fdInstall_table:
  "readFileEvent buf = Inr (fd, ino, major, minor) \<Longrightarrow>
     fst (snd (fdInstall env ce fds h buf)) =
       (if HasPrefix (fdInstallName env (Pid ce) fd) ''/''
        then Put fds (ucast (Pid ce)) (ucast fd)
               \<lparr>Path = fdInstallName env (Pid ce) fd, Ino = ino, Major = major, Minor = minor\<rparr>
        else fds)"
  by (simp add: fdInstall_def Let_def)

lemma fdInstall_table_error:
  "readFileEvent buf = Inl e \<Longrightarrow> fdInstall env ce fds h buf = (Inl e, fds, h)"
  by (simp add: fdInstall_def)

lemma GetStruct_table_cases:
  "fst (snd (GetStruct scs env ce fds h buf)) = fds
   \<or> (\<exists>fd. fst (snd (GetStruct scs env ce fds h buf)) = Delete fds (ucast (Pid ce)) fd)
   \<or> (\<exists>fd i. HasPrefix (Path i) ''/''
         \<and> fst (snd (GetStruct scs env ce fds h buf)) = Put fds (ucast (Pid ce)) fd i)"
proof (cases "find (\<lambda>sc. RawName sc = EventName ce) scs")
  case (Some sc)
  with getStructCase_table [of env ce sc fds h buf] show ?thesis
    by (auto simp: GetStruct_def)
next
  case None
  show ?thesis
  proof (cases "EventName ce = ''fd_install''")
    case False
    with None show ?thesis by (simp add: GetStruct_def)
  next
    case True
    show ?thesis
    proof (cases "readFileEvent buf")
      case (Inl e)
      with None True show ?thesis by (simp add: GetStruct_def fdInstall_table_error)
    next
      case (Inr r)
      obtain fd ino major minor where "r = (fd, ino, major, minor)" by (cases r)
      with Inr have "readFileEvent buf = Inr (fd, ino, major, minor)" by simp
      from fdInstall_table [OF this, of env ce fds h] None True
      have t: "fst (snd (GetStruct scs env ce fds h buf)) =
                 (if HasPrefix (fdInstallName env (Pid ce) fd) ''/''
                  then Put fds (ucast (Pid ce)) (ucast fd)
                         \<lparr>Path = fdInstallName env (Pid ce) fd, Ino = ino,
                          Major = major, Minor = minor\<rparr>
                  else fds)"
        by (simp add: GetStruct_def)
      show ?thesis
      proof (cases "HasPrefix (fdInstallName env (Pid ce) fd) ''/''")
        case False
        with t show ?thesis by simp
      next
        case True
        with t have "\<exists>d i. HasPrefix (Path i) ''/''
            \<and> fst (snd (GetStruct scs env ce fds h buf)) = Put fds (ucast (Pid ce)) d i"
          by (intro exI [of _ "ucast fd"]
                exI [of _ "\<lparr>Path = fdInstallName env (Pid ce) fd, Ino = ino,
                          Major = major, Minor = minor\<rparr>"]) simp
        then show ?thesis by blast
      qed
    qed
  qed
qed

lemma Put_lookup:
  "Option.bind (items (Put f pid fd info) p) (\<lambda>m. m d) =
     (if p = pid \<and> d = fd then Some info else Option.bind (items f p) (\<lambda>m. m d))"
  by (auto simp: Put_def Let_def split: option.splits)

lemma Get_after_Put:
  "Get (Put f pid fd info) h pid fd = ((Some (length h), True), Put f pid fd info, h @ [info])"
  by (rule Get_found [OF Put_items]) simp

text \<open>
  Claim C9. For \<^verbatim>\<open>fd_install\<close> (no compiled syscall having that raw name), when the
  32 bytes of the \<^verbatim>\<open>FileEvent\<close> are read: if the looked-up name begins with
  \<^verbatim>\<open>/\<close>, the table after the call is the table with the entry put in, it holds that
  entry at the header's pid and the event's descriptor, \<^verbatim>\<open>Get\<close> finds it there, and
  every other pair of pid and descriptor holds what it held; if the name does not begin
  with \<^verbatim>\<open>/\<close>, and so when the lookup fails, the table is the table as it was. It is
  the table as it was when the read fails, too. And whatever the event, if every entry
  of the table had an absolute path before \<^verbatim>\<open>GetStruct\<close>, every entry has one after
  it.
\<close>

theorem fd_install_tracks_absolute_paths:
  "(EventName ce = ''fd_install'' \<and> EventName ce \<notin> RawName ` set goSyscalls \<longrightarrow>
      (\<forall>fd ino major minor. readFileEvent buf = Inr (fd, ino, major, minor) \<longrightarrow>
         fst (snd (GetStruct goSyscalls env ce fds h buf)) =
           (if HasPrefix (fdInstallName env (Pid ce) fd) ''/''
            then Put fds (ucast (Pid ce)) (ucast fd)
                   \<lparr>Path = fdInstallName env (Pid ce) fd, Ino = ino,
                    Major = major, Minor = minor\<rparr>
            else fds)
         \<and> (HasPrefix (fdInstallName env (Pid ce) fd) ''/'' \<longrightarrow>
              Option.bind (items (fst (snd (GetStruct goSyscalls env ce fds h buf)))
                             (ucast (Pid ce))) (\<lambda>m. m (ucast fd))
                = Some \<lparr>Path = fdInstallName env (Pid ce) fd, Ino = ino,
                        Major = major, Minor = minor\<rparr>
              \<and> snd (fst (Get (fst (snd (GetStruct goSyscalls env ce fds h buf))) h
                             (ucast (Pid ce)) (ucast fd)))
              \<and> (\<forall>p d. p \<noteq> ucast (Pid ce) \<or> d \<noteq> ucast fd \<longrightarrow>
                    Option.bind (items (fst (snd (GetStruct goSyscalls env ce fds h buf))) p)
                      (\<lambda>m. m d)
                    = Option.bind (items fds p) (\<lambda>m. m d)))
         \<and> (\<not> HasPrefix (fdInstallName env (Pid ce) fd) ''/'' \<longrightarrow>
              fst (snd (GetStruct goSyscalls env ce fds h buf)) = fds)
         \<and> (procLookupPath env (ucast (Pid ce)) (ucast fd) = None \<longrightarrow>
              fst (snd (GetStruct goSyscalls env ce fds h buf)) = fds))
      \<and> (\<forall>e. readFileEvent buf = Inl e \<longrightarrow>
            fst (snd (GetStruct goSyscalls env ce fds h buf)) = fds))
   \<and> ((\<forall>pid inner fd info. items fds pid = Some inner \<and> inner fd = Some info \<longrightarrow>
          HasPrefix (Path info) ''/'') \<longrightarrow>
       (\<forall>pid inner fd info.
          items (fst (snd (GetStruct goSyscalls env ce fds h buf))) pid = Some inner
            \<and> inner fd = Some info \<longrightarrow>
          HasPrefix (Path info) ''/''))"
proof (intro conjI impI allI)
  assume a: "EventName ce = ''fd_install'' \<and> EventName ce \<notin> RawName ` set goSyscalls"
  then have none: "find (\<lambda>sc. RawName sc = EventName ce) goSyscalls = None"
    unfolding find_None_iff by (metis imageI)
  with a have g: "GetStruct goSyscalls env ce fds h buf = fdInstall env ce fds h buf"
    by (simp add: GetStruct_def)
  show "fst (snd (GetStruct goSyscalls env ce fds h buf)) =
           (if HasPrefix (fdInstallName env (Pid ce) fd) ''/''
            then Put fds (ucast (Pid ce)) (ucast fd)
                   \<lparr>Path = fdInstallName env (Pid ce) fd, Ino = ino,
                    Major = major, Minor = minor\<rparr>
            else fds)"
    if "readFileEvent buf = Inr (fd, ino, major, minor)" for fd ino major minor
    using that g by (simp add: fdInstall_table)
  show "Option.bind (items (fst (snd (GetStruct goSyscalls env ce fds h buf)))
                             (ucast (Pid ce))) (\<lambda>m. m (ucast fd))
                = Some \<lparr>Path = fdInstallName env (Pid ce) fd, Ino = ino,
                        Major = major, Minor = minor\<rparr>"
    if "readFileEvent buf = Inr (fd, ino, major, minor)"
      and "HasPrefix (fdInstallName env (Pid ce) fd) ''/''" for fd ino major minor
    using that g by (simp add: fdInstall_table Put_lookup)
  show "snd (fst (Get (fst (snd (GetStruct goSyscalls env ce fds h buf))) h
                             (ucast (Pid ce)) (ucast fd)))"
    if "readFileEvent buf = Inr (fd, ino, major, minor)"
      and "HasPrefix (fdInstallName env (Pid ce) fd) ''/''" for fd ino major minor
    using that g by (simp add: fdInstall_table Get_after_Put)
  show "Option.bind (items (fst (snd (GetStruct goSyscalls env ce fds h buf))) p)
                      (\<lambda>m. m d)
                    = Option.bind (items fds p) (\<lambda>m. m d)"
    if "readFileEvent buf = Inr (fd, ino, major, minor)"
      and "HasPrefix (fdInstallName env (Pid ce) fd) ''/''"
      and "p \<noteq> ucast (Pid ce) \<or> d \<noteq> ucast fd" for fd ino major minor p d
    using that g by (auto simp: fdInstall_table Put_lookup)
  show "fst (snd (GetStruct goSyscalls env ce fds h buf)) = fds"
    if "readFileEvent buf = Inr (fd, ino, major, minor)"
      and "\<not> HasPrefix (fdInstallName env (Pid ce) fd) ''/''" for fd ino major minor
    using that g by (simp add: fdInstall_table)
  show "fst (snd (GetStruct goSyscalls env ce fds h buf)) = fds"
    if "readFileEvent buf = Inr (fd, ino, major, minor)"
      and "procLookupPath env (ucast (Pid ce)) (ucast fd) = None" for fd ino major minor
    using that g by (simp add: fdInstall_table fdInstallName_def HasPrefix_def)
  show "fst (snd (GetStruct goSyscalls env ce fds h buf)) = fds"
    if "readFileEvent buf = Inl e" for e
    using that g by (simp add: fdInstall_table_error)
next
  fix pid inner fd info
  assume inv: "\<forall>pid inner fd info. items fds pid = Some inner \<and> inner fd = Some info \<longrightarrow>
          HasPrefix (Path info) ''/''"
    and e: "items (fst (snd (GetStruct goSyscalls env ce fds h buf))) pid = Some inner
            \<and> inner fd = Some info"
  from GetStruct_table_cases [of goSyscalls env ce fds h buf]
  consider "fst (snd (GetStruct goSyscalls env ce fds h buf)) = fds"
    | d where "fst (snd (GetStruct goSyscalls env ce fds h buf)) = Delete fds (ucast (Pid ce)) d"
    | d i where "HasPrefix (Path i) ''/''"
        "fst (snd (GetStruct goSyscalls env ce fds h buf)) = Put fds (ucast (Pid ce)) d i"
    by blast
  then show "HasPrefix (Path info) ''/''"
  proof cases
    case 1
    with inv e show ?thesis by auto
  next
    case 2
    with e Delete_entry [of fds "ucast (Pid ce)" d pid inner fd info] inv show ?thesis
      by auto
  next
    case 3
    with e Put_entry [of fds "ucast (Pid ce)" d i pid inner fd info] inv show ?thesis
      by auto
  qed
qed

theorem fd_install_tracks_absolute_paths_witness:
  "Option.bind (items (fst (snd (GetStruct
       [\<lparr>SyscallName = ''CloseEvent'', RawName = ''close'',
         Params = [\<lparr>Position = 0, Name = ''Fd'', Type = ''uint64'', Suffix = [],
                     HashFunc = [], NeedsPath = True\<rparr>]\<rparr>]
       \<lparr>statRoot = (\<lambda>pid path. Inl ENOENT),
        procLookupPath = (\<lambda>pid fd. if fd = 5 then Some ''/tmp/x''
                                    else if fd = 6 then Some ''socket:[17]'' else None),
        quoted = (\<lambda>s. s)\<rparr>
       \<lparr>Timestamp = 0, Pid = 100, Ret = 0, EventName = ''fd_install''\<rparr>
       NewFdMap []
       [5,0,0,0,0,0,0,0, 9,0,0,0,0,0,0,0, 8,0,0,0,0,0,0,0, 1,0,0,0,0,0,0,0]))) 100)
     (\<lambda>m. m 5)
     = Some \<lparr>Path = ''/tmp/x'', Ino = 9, Major = 8, Minor = 1\<rparr>
   \<and> snd (fst (Get (fst (snd (GetStruct
       [\<lparr>SyscallName = ''CloseEvent'', RawName = ''close'',
         Params = [\<lparr>Position = 0, Name = ''Fd'', Type = ''uint64'', Suffix = [],
                     HashFunc = [], NeedsPath = True\<rparr>]\<rparr>]
       \<lparr>statRoot = (\<lambda>pid path. Inl ENOENT),
        procLookupPath = (\<lambda>pid fd. if fd = 5 then Some ''/tmp/x''
                                    else if fd = 6 then Some ''socket:[17]'' else None),
        quoted = (\<lambda>s. s)\<rparr>
       \<lparr>Timestamp = 0, Pid = 100, Ret = 0, EventName = ''fd_install''\<rparr>
       NewFdMap []
       [5,0,0,0,0,0,0,0, 9,0,0,0,0,0,0,0, 8,0,0,0,0,0,0,0, 1,0,0,0,0,0,0,0]))) [] 100 5))
   \<and> fst (snd (GetStruct
       [\<lparr>SyscallName = ''CloseEvent'', RawName = ''close'',
         Params = [\<lparr>Position = 0, Name = ''Fd'', Type = ''uint64'', Suffix = [],
                     HashFunc = [], NeedsPath = True\<rparr>]\<rparr>]
       \<lparr>statRoot = (\<lambda>pid path. Inl ENOENT),
        procLookupPath = (\<lambda>pid fd. if fd = 5 then Some ''/tmp/x''
                                    else if fd = 6 then Some ''socket:[17]'' else None),
        quoted = (\<lambda>s. s)\<rparr>
       \<lparr>Timestamp = 0, Pid = 100, Ret = 0, EventName = ''fd_install''\<rparr>
       NewFdMap []
       [6,0,0,0,0,0,0,0, 9,0,0,0,0,0,0,0, 8,0,0,0,0,0,0,0, 1,0,0,0,0,0,0,0]))
     = NewFdMap
   \<and> fst (snd (GetStruct
       [\<lparr>SyscallName = ''CloseEvent'', RawName = ''close'',
         Params = [\<lparr>Position = 0, Name = ''Fd'', Type = ''uint64'', Suffix = [],
                     HashFunc = [], NeedsPath = True\<rparr>]\<rparr>]
       \<lparr>statRoot = (\<lambda>pid path. Inl ENOENT),
        procLookupPath = (\<lambda>pid fd. if fd = 5 then Some ''/tmp/x''
                                    else if fd = 6 then Some ''socket:[17]'' else None),
        quoted = (\<lambda>s. s)\<rparr>
       \<lparr>Timestamp = 0, Pid = 100, Ret = 0, EventName = ''fd_install''\<rparr>
       NewFdMap []
       [7,0,0,0,0,0,0,0, 9,0,0,0,0,0,0,0, 8,0,0,0,0,0,0,0, 1,0,0,0,0,0,0,0]))
     = NewFdMap
   \<and> fst (snd (GetStruct
       [\<lparr>SyscallName = ''CloseEvent'', RawName = ''close'',
         Params = [\<lparr>Position = 0, Name = ''Fd'', Type = ''uint64'', Suffix = [],
                     HashFunc = [], NeedsPath = True\<rparr>]\<rparr>]
       \<lparr>statRoot = (\<lambda>pid path. Inl ENOENT),
        procLookupPath = (\<lambda>pid fd. if fd = 5 then Some ''/tmp/x''
                                    else if fd = 6 then Some ''socket:[17]'' else None),
        quoted = (\<lambda>s. s)\<rparr>
       \<lparr>Timestamp = 0, Pid = 100, Ret = 0, EventName = ''fd_install''\<rparr>
       NewFdMap []
       [5,0,0]))
     = NewFdMap
   \<and> HasPrefix ''/tmp/x'' ''/''"
proof -
  let ?scs = "[\<lparr>SyscallName = ''CloseEvent'', RawName = ''close'',
         Params = [\<lparr>Position = 0, Name = ''Fd'', Type = ''uint64'', Suffix = [],
                     HashFunc = [], NeedsPath = True\<rparr>]\<rparr>]"
  let ?env = "\<lparr>statRoot = (\<lambda>pid path. Inl ENOENT),
        procLookupPath = (\<lambda>pid fd. if fd = 5 then Some ''/tmp/x''
                                    else if fd = 6 then Some ''socket:[17]'' else None),
        quoted = (\<lambda>s. s)\<rparr>"
  let ?ce = "\<lparr>Timestamp = 0, Pid = 100, Ret = 0, EventName = ''fd_install''\<rparr>"
  let ?b5 = "[5,0,0,0,0,0,0,0, 9,0,0,0,0,0,0,0, 8,0,0,0,0,0,0,0, 1,0,0,0,0,0,0,0] :: byte list"
  let ?b6 = "[6,0,0,0,0,0,0,0, 9,0,0,0,0,0,0,0, 8,0,0,0,0,0,0,0, 1,0,0,0,0,0,0,0] :: byte list"
  let ?b7 = "[7,0,0,0,0,0,0,0, 9,0,0,0,0,0,0,0, 8,0,0,0,0,0,0,0, 1,0,0,0,0,0,0,0] :: byte list"
  have hyp: "EventName ?ce = ''fd_install'' \<and> EventName ?ce \<notin> RawName ` set ?scs"
    by simp
  have r5: "readFileEvent ?b5 = Inr (5, 9, 8, 1)" by (simp add: readFileEvent_def)
  have r6: "readFileEvent ?b6 = Inr (6, 9, 8, 1)" by (simp add: readFileEvent_def)
  have r7: "readFileEvent ?b7 = Inr (7, 9, 8, 1)" by (simp add: readFileEvent_def)
  have r3: "readFileEvent [5,0,0] = Inl ErrUnexpectedEOF" by (simp add: readFileEvent_def)
  have n5: "fdInstallName ?env (Pid ?ce) 5 = ''/tmp/x''" by (simp add: fdInstallName_def)
  have n6: "fdInstallName ?env (Pid ?ce) 6 = ''socket:[17]''" by (simp add: fdInstallName_def)
  have n7: "procLookupPath ?env (ucast (Pid ?ce)) (ucast (7 :: uint64)) = None" by simp
  have a5: "HasPrefix ''/tmp/x'' ''/''" by (simp add: HasPrefix_def)
  have a6: "\<not> HasPrefix ''socket:[17]'' ''/''" by (simp add: HasPrefix_def)
  note t5 = fd_install_tracks_absolute_paths
      [where goSyscalls = ?scs and fds = NewFdMap and h = "[]" and ce = ?ce and env = ?env
         and buf = ?b5,
       THEN conjunct1, THEN mp, OF hyp, THEN conjunct1, rule_format, OF r5,
               THEN conjunct2, THEN conjunct1, unfolded n5, THEN mp, OF a5]
  note t6 = fd_install_tracks_absolute_paths
      [where goSyscalls = ?scs and fds = NewFdMap and h = "[]" and ce = ?ce and env = ?env
         and buf = ?b6,
       THEN conjunct1, THEN mp, OF hyp, THEN conjunct1, rule_format, OF r6,
               THEN conjunct2, THEN conjunct2, THEN conjunct1, unfolded n6, THEN mp, OF a6]
  note t7 = fd_install_tracks_absolute_paths
      [where goSyscalls = ?scs and fds = NewFdMap and h = "[]" and ce = ?ce and env = ?env
         and buf = ?b7,
       THEN conjunct1, THEN mp, OF hyp, THEN conjunct1, rule_format, OF r7,
               THEN conjunct2, THEN conjunct2, THEN conjunct2, THEN mp, OF n7]
  note t3 = fd_install_tracks_absolute_paths
      [where goSyscalls = ?scs and fds = NewFdMap and h = "[]" and ce = ?ce and env = ?env
         and buf = "[5,0,0]",
       THEN conjunct1, THEN mp, OF hyp, THEN conjunct2, rule_format, OF r3]
  from t5 have c5: "Option.bind
        (items (fst (snd (GetStruct ?scs ?env ?ce NewFdMap [] ?b5))) 100) (\<lambda>m. m 5)
       = Some \<lparr>Path = ''/tmp/x'', Ino = 9, Major = 8, Minor = 1\<rparr>
     \<and> snd (fst (Get (fst (snd (GetStruct ?scs ?env ?ce NewFdMap [] ?b5))) [] 100 5))"
    by simp
  from c5 t6 t7 t3 a5 show ?thesis by simp
qed

section \<open>Properties of the schema compiler\<close>

subsection \<open>Evaluating the compiler on the sample inputs\<close>

lemma parseSyscall_open:
  "parseSyscall ''open'' sysEnterOpenFormat =
     Inr (\<lparr>SyscallName = ''OpenEvent'', RawName = ''open'',
           Params =
             [\<lparr>Position = 0, Name = ''Filename'', Type = ''[256]byte'', Suffix = [],
               HashFunc = [], NeedsPath = False\<rparr>,
              \<lparr>Position = 0, Name = ''Flags'', Type = ''int64'', Suffix = [],
               HashFunc = [], NeedsPath = False\<rparr>,
              \<lparr>Position = 0, Name = ''Mode'', Type = ''uint64'', Suffix = [],
               HashFunc = [], NeedsPath = False\<rparr>]\<rparr>,
          \<lparr>SyscallName = ''open'', RawName = ''open'',
           Params =
             [\<lparr>Position = 1, Name = ''filename'', Type = ''char'', Suffix = ''[256]'',
               HashFunc = [], NeedsPath = False\<rparr>,
              \<lparr>Position = 2, Name = ''flags'', Type = ''s64'', Suffix = [],
               HashFunc = [], NeedsPath = False\<rparr>,
              \<lparr>Position = 3, Name = ''mode'', Type = ''u64'', Suffix = [],
               HashFunc = [], NeedsPath = False\<rparr>]\<rparr>,
          \<lparr>SyscallName = ''ProtobufOpenEvent'', RawName = ''open'',
           Params =
             [\<lparr>Position = 0, Name = ''filename'', Type = ''bytes'', Suffix = [],
               HashFunc = [], NeedsPath = False\<rparr>,
              \<lparr>Position = 0, Name = ''flags'', Type = ''int64'', Suffix = [],
               HashFunc = [], NeedsPath = False\<rparr>,
              \<lparr>Position = 0, Name = ''mode'', Type = ''uint64'', Suffix = [],
               HashFunc = [], NeedsPath = False\<rparr>]\<rparr>)"
  by code_simp

lemma parseSyscall_unmapped:
  "parseSyscall ''open'' unmappedTypeFormat =
     Inr (\<lparr>SyscallName = ''OpenEvent'', RawName = ''open'',
           Params =
             [\<lparr>Position = 0, Name = ''Argv'', Type = [], Suffix = [],
               HashFunc = [], NeedsPath = False\<rparr>]\<rparr>,
          \<lparr>SyscallName = ''open'', RawName = ''open'',
           Params =
             [\<lparr>Position = - 2, Name = ''argv'', Type = [], Suffix = [],
               HashFunc = [], NeedsPath = False\<rparr>]\<rparr>,
          \<lparr>SyscallName = ''ProtobufOpenEvent'', RawName = ''open'',
           Params =
             [\<lparr>Position = 0, Name = ''argv'', Type = [], Suffix = [],
               HashFunc = [], NeedsPath = False\<rparr>]\<rparr>)"
  by code_simp

lemma unmapped_keys:
  "map_of goTypeConversions ''const char *const *'' = None"
  "map_of cTypeConversions ''const char *const *'' = None"
  by code_simp+

subsection \<open>Unmapped kernel types\<close>

lemma parseLine_no_error: "\<exists>r. parseLine l idx = Inr r"
  by (simp add: parseLine_def Let_def split: option.splits prod.splits)

lemma parseLines_no_error: "\<exists>r. parseLines skipped idx ls acc = Inr r"
proof (induction ls arbitrary: skipped idx acc)
  case Nil
  show ?case by (cases acc) simp
next
  case (Cons line rest)
  obtain gs cs ps where acc: "acc = (gs, cs, ps)" by (cases acc)
  obtain gp cp pp where pl: "parseLine line idx = Inr (gp, cp, pp)"
    using parseLine_no_error [of line idx] by (metis prod_cases3)
  show ?case
  proof (cases "\<not> skipped \<and> length line \<noteq> 0")
    case True
    with acc Cons.IH [of skipped "idx + 1" "(gs, cs, ps)"] show ?thesis by simp
  next
    case False
    with acc pl
      Cons.IH [of True "idx + 1" "(appendOpt gs gp, appendOpt cs cp, appendOpt ps pp)"]
    show ?thesis by auto
  qed
qed

lemma parseSyscall_no_error: "\<exists>r. parseSyscall name format = Inr r"
proof -
  obtain r where "parseLines False 0 (splitNewline format) ([], [], []) = Inr r"
    using parseLines_no_error by blast
  then show ?thesis by (cases r) (simp add: parseSyscall_def)
qed

lemma protoType_of_empty: "tableLookup protoTypeConversions [] = []"
  by (simp add: tableLookup_def protoTypeConversions_def)

text \<open>
  Claim C1, as amended. \<^verbatim>\<open>parseLine\<close> and \<^verbatim>\<open>parseSyscall\<close> never return an
  error. For a line that matches the pattern with a type the decoder table does not
  have (and a name other than \<^verbatim>\<open>__syscall_nr\<close>), \<^verbatim>\<open>parseLine\<close> returns the
  three parameters, and the decoder type and the wire type are the empty string.
\<close>

theorem unmapped_type_compiles_to_empty_type:
  "(\<exists>r. parseLine l idx = Inr r)
   \<and> (\<exists>r. parseSyscall name format = Inr r)
   \<and> (\<forall>ty nm. reFind l = Some (ty, nm) \<and> nm \<noteq> ''__syscall_nr''
          \<and> map_of goTypeConversions ty = None \<longrightarrow>
        (\<exists>gp cp pp. parseLine l idx = Inr (Some gp, Some cp, Some pp)
           \<and> Type gp = [] \<and> Type pp = []))"
proof (intro conjI allI impI)
  show "\<exists>r. parseLine l idx = Inr r" by (rule parseLine_no_error)
  show "\<exists>r. parseSyscall name format = Inr r" by (rule parseSyscall_no_error)
  fix ty nm
  assume a: "reFind l = Some (ty, nm) \<and> nm \<noteq> ''__syscall_nr''
          \<and> map_of goTypeConversions ty = None"
  then have g: "tableLookup goTypeConversions ty = []"
    by (simp add: tableLookup_def)
  from a show "\<exists>gp cp pp. parseLine l idx = Inr (Some gp, Some cp, Some pp)
           \<and> Type gp = [] \<and> Type pp = []"
    by (simp add: parseLine_def Let_def g protoType_of_empty)
qed

lemma reFind_argv:
  "reFind (CHR 0x09 # ''field:const char *const * argv;'' @ CHR 0x09 # ''offset:16;'')
     = Some (''const char *const *'', ''argv'')"
  by code_simp

theorem unmapped_type_compiles_to_empty_type_witness:
  "reFind (CHR 0x09 # ''field:const char *const * argv;'' @ CHR 0x09 # ''offset:16;'')
     = Some (''const char *const *'', ''argv'')
   \<and> ''argv'' \<noteq> ''__syscall_nr''
   \<and> map_of goTypeConversions ''const char *const *'' = None
   \<and> (\<exists>gp cp pp.
         parseLine (CHR 0x09 # ''field:const char *const * argv;'' @ CHR 0x09 # ''offset:16;'') 9
           = Inr (Some gp, Some cp, Some pp)
         \<and> Type gp = [] \<and> Type pp = [])"
  using unmapped_type_compiles_to_empty_type
    [where l = "CHR 0x09 # ''field:const char *const * argv;'' @ CHR 0x09 # ''offset:16;''"
       and idx = 9]
    reFind_argv unmapped_keys(1)
  by simp

text \<open>
  The claim as stated fails: \<^verbatim>\<open>const char *const *\<close> is a key of neither the
  decoder table nor the kernel-record table, and compiling a format text with a field of
  that type returns the three schemas, each with the parameter at the empty type, and no
  error.
\<close>

theorem unmapped_type_is_no_error_counterexample:
  "map_of goTypeConversions ''const char *const *'' = None
   \<and> map_of cTypeConversions ''const char *const *'' = None
   \<and> parseSyscall ''open'' unmappedTypeFormat =
     Inr (\<lparr>SyscallName = ''OpenEvent'', RawName = ''open'',
           Params =
             [\<lparr>Position = 0, Name = ''Argv'', Type = [], Suffix = [],
               HashFunc = [], NeedsPath = False\<rparr>]\<rparr>,
          \<lparr>SyscallName = ''open'', RawName = ''open'',
           Params =
             [\<lparr>Position = - 2, Name = ''argv'', Type = [], Suffix = [],
               HashFunc = [], NeedsPath = False\<rparr>]\<rparr>,
          \<lparr>SyscallName = ''ProtobufOpenEvent'', RawName = ''open'',
           Params =
             [\<lparr>Position = 0, Name = ''argv'', Type = [], Suffix = [],
               HashFunc = [], NeedsPath = False\<rparr>]\<rparr>)"
  by (simp add: unmapped_keys parseSyscall_unmapped)

subsection \<open>Alignment of the variants\<close>

lemma parseLine_aligned:
  "parseLine l idx = Inr (gp, cp, pp) \<Longrightarrow>
     (gp = None \<and> cp = None \<and> pp = None)
     \<or> (\<exists>g c p ty. gp = Some g \<and> cp = Some c \<and> pp = Some p
           \<and> Name g = ToCamel (Name c) \<and> Name p = Name c
           \<and> Type g = tableLookup goTypeConversions ty
           \<and> Type c = tableLookup cTypeConversions ty)"
proof (cases "reFind l")
  case None
  assume "parseLine l idx = Inr (gp, cp, pp)"
  with None show ?thesis by (simp add: parseLine_def)
next
  case (Some r)
  assume a: "parseLine l idx = Inr (gp, cp, pp)"
  obtain ty nm where r: "r = (ty, nm)" by (cases r)
  show ?thesis
  proof (cases "nm = ''__syscall_nr''")
    case True
    with a Some r show ?thesis by (simp add: parseLine_def)
  next
    case False
    with a Some r obtain g c p where
      "gp = Some g" "cp = Some c" "pp = Some p"
      "Name g = ToCamel nm" "Name c = nm" "Name p = nm"
      "Type g = tableLookup goTypeConversions ty"
      "Type c = tableLookup cTypeConversions ty"
      by (auto simp: parseLine_def Let_def)
    then show ?thesis by auto
  qed
qed

lemma parseLines_aligned:
  "parseLines skipped idx ls (gs, cs, ps) = Inr (gs', cs', ps') \<Longrightarrow>
   list_all2 (\<lambda>g c. Name g = ToCamel (Name c)
        \<and> (\<exists>ty. Type g = tableLookup goTypeConversions ty
                 \<and> Type c = tableLookup cTypeConversions ty)) gs cs \<Longrightarrow>
   list_all2 (\<lambda>g c. Name g = ToCamel (Name c)
        \<and> (\<exists>ty. Type g = tableLookup goTypeConversions ty
                 \<and> Type c = tableLookup cTypeConversions ty)) gs' cs'"
proof (induction ls arbitrary: skipped idx gs cs ps)
  case Nil
  then show ?case by simp
next
  case (Cons line rest)
  show ?case
  proof (cases "\<not> skipped \<and> length line \<noteq> 0")
    case True
    with Cons.prems(1) have "parseLines skipped (idx + 1) rest (gs, cs, ps) = Inr (gs', cs', ps')"
      by simp
    from Cons.IH [OF this Cons.prems(2)] show ?thesis .
  next
    case False
    obtain gp cp pp where pl: "parseLine line idx = Inr (gp, cp, pp)"
      using parseLine_no_error [of line idx] by (metis prod_cases3)
    with False Cons.prems(1) have rest:
      "parseLines True (idx + 1) rest (appendOpt gs gp, appendOpt cs cp, appendOpt ps pp)
         = Inr (gs', cs', ps')"
      by auto
    have "list_all2 (\<lambda>g c. Name g = ToCamel (Name c)
        \<and> (\<exists>ty. Type g = tableLookup goTypeConversions ty
                 \<and> Type c = tableLookup cTypeConversions ty)) (appendOpt gs gp) (appendOpt cs cp)"
    proof (cases gp)
      case None
      with parseLine_aligned [OF pl] Cons.prems(2) show ?thesis
        by (auto simp: appendOpt_def)
    next
      case (Some g)
      with parseLine_aligned [OF pl] obtain c ty where c: "cp = Some c"
        and n: "Name g = ToCamel (Name c)"
        and t: "Type g = tableLookup goTypeConversions ty"
               "Type c = tableLookup cTypeConversions ty"
        by auto
      from n t have "list_all2 (\<lambda>g c. Name g = ToCamel (Name c)
        \<and> (\<exists>ty. Type g = tableLookup goTypeConversions ty
                 \<and> Type c = tableLookup cTypeConversions ty)) [g] [c]"
        by auto
      with Cons.prems(2) Some c show ?thesis
        by (simp add: appendOpt_def list_all2_appendI)
    qed
    from Cons.IH [OF rest this] show ?thesis .
  qed
qed

text \<open>
  Claim C3, as amended. The decoder and the kernel-record variant that
  \<^verbatim>\<open>parseSyscall\<close> returns have the same number of parameters, and at every index
  the decoder parameter's name is \<^verbatim>\<open>ToCamel\<close> of the kernel-record parameter's name
  and the two types are the two tables' values at one and the same kernel type.
\<close>

theorem variants_aligned_up_to_ToCamel:
  assumes "parseSyscall name format = Inr (goSyscall, cSyscall, protoSyscall)"
  shows "length (Params goSyscall) = length (Params cSyscall)
     \<and> (\<forall>n < length (Params goSyscall).
           Name (Params goSyscall ! n) = ToCamel (Name (Params cSyscall ! n))
           \<and> (\<exists>ty. Type (Params goSyscall ! n) = tableLookup goTypeConversions ty
                    \<and> Type (Params cSyscall ! n) = tableLookup cTypeConversions ty))"
proof -
  from assms obtain gs cs ps where
    pl: "parseLines False 0 (splitNewline format) ([], [], []) = Inr (gs, cs, ps)"
    and g: "Params goSyscall = gs" and c: "Params cSyscall = cs"
    by (auto simp: parseSyscall_def split: sum.splits prod.splits)
  from parseLines_aligned [OF pl] have "list_all2 (\<lambda>g c. Name g = ToCamel (Name c)
        \<and> (\<exists>ty. Type g = tableLookup goTypeConversions ty
                 \<and> Type c = tableLookup cTypeConversions ty)) gs cs" by simp
  with g c show ?thesis
    by (simp add: list_all2_conv_all_nth)
qed

theorem variants_aligned_up_to_ToCamel_witness:
  "length (Params (fst (projr (parseSyscall ''open'' sysEnterOpenFormat)))) = 3
   \<and> length (Params (fst (snd (projr (parseSyscall ''open'' sysEnterOpenFormat))))) = 3
   \<and> Name (Params (fst (projr (parseSyscall ''open'' sysEnterOpenFormat))) ! 2)
       = ToCamel (Name (Params (fst (snd (projr (parseSyscall ''open'' sysEnterOpenFormat)))) ! 2))"
  using variants_aligned_up_to_ToCamel [OF parseSyscall_open, THEN conjunct1]
    variants_aligned_up_to_ToCamel [OF parseSyscall_open, THEN conjunct2, rule_format, of 2]
  by (simp add: parseSyscall_open)

text \<open>
  The claim as stated fails: for \<^verbatim>\<open>open\<close> the decoder names are capitalised and
  the kernel-record names are the kernel's, so no index has equal names.
\<close>

theorem names_differ_across_variants_counterexample:
  "map Name (Params (fst (projr (parseSyscall ''open'' sysEnterOpenFormat))))
     = [''Filename'', ''Flags'', ''Mode'']
   \<and> map Name (Params (fst (snd (projr (parseSyscall ''open'' sysEnterOpenFormat)))))
     = [''filename'', ''flags'', ''mode'']"
  by (simp add: parseSyscall_open)

subsection \<open>The open scenario\<close>

text \<open>
  Claim C7. Compiling \<^verbatim>\<open>open\<close> from the format text of \<^verbatim>\<open>sys_enter_open\<close>
  gives the decoder schema \<^verbatim>\<open>OpenEvent\<close> with the parameters \<^verbatim>\<open>Filename\<close> of type
  \<^verbatim>\<open>[256]byte\<close>, \<^verbatim>\<open>Flags\<close> of type \<^verbatim>\<open>int64\<close> and \<^verbatim>\<open>Mode\<close> of type
  \<^verbatim>\<open>uint64\<close>, in this order, none of them needing a path.
\<close>

theorem open_decoder_schema:
  "\<exists>cSyscall protoSyscall.
     parseSyscall ''open'' sysEnterOpenFormat =
       Inr (\<lparr>SyscallName = ''OpenEvent'', RawName = ''open'',
             Params =
               [\<lparr>Position = 0, Name = ''Filename'', Type = ''[256]byte'', Suffix = [],
                 HashFunc = [], NeedsPath = False\<rparr>,
                \<lparr>Position = 0, Name = ''Flags'', Type = ''int64'', Suffix = [],
                 HashFunc = [], NeedsPath = False\<rparr>,
                \<lparr>Position = 0, Name = ''Mode'', Type = ''uint64'', Suffix = [],
                 HashFunc = [], NeedsPath = False\<rparr>]\<rparr>,
            cSyscall, protoSyscall)"
  by (simp add: parseSyscall_open)

subsection \<open>Walking the tracing directory\<close>

lemma walkFn_fails_iff:
  "(\<exists>err. walkFn openFormat e acc = Inl err) \<longleftrightarrow>
     (WErr e \<noteq> None
      \<or> (WPath e \<noteq> ''syscalls'' \<and> WIsDir e \<and> \<not> HasPrefix (WName e) ''sys_exit''
          \<and> TrimPrefix (WName e) ''sys_enter_'' \<in> set consideredSyscalls
          \<and> (\<exists>msg. openFormat (WName e) = ReadFails msg)))"
proof -
  have ps: "\<exists>g c p. parseSyscall n f = Inr (g, c, p)" for n f
    using parseSyscall_no_error [of n f] by (metis prod_cases3)
  show ?thesis
  proof (cases "openFormat (WName e)")
    case OpenFails
    then show ?thesis
      by (auto simp: walkFn_def Let_def split: option.splits)
  next
    case (ReadFails msg)
    then show ?thesis
      by (auto simp: walkFn_def Let_def split: option.splits)
  next
    case (Contents formatBytes)
    obtain g c p where
      "parseSyscall (TrimPrefix (WName e) ''sys_enter_'') formatBytes = Inr (g, c, p)"
      using ps by blast
    with Contents show ?thesis
      by (cases acc) (auto simp: walkFn_def Let_def split: option.splits)
  qed
qed

lemma walkFn_skips_unopenable:
  "WErr e = None \<Longrightarrow> openFormat (WName e) = OpenFails \<Longrightarrow> walkFn openFormat e acc = Inr acc"
  by (simp add: walkFn_def Let_def)

lemma Walk_append:
  "Walk openFormat (es1 @ es2) acc =
     (case Walk openFormat es1 acc of
        Inl err \<Rightarrow> Inl err
      | Inr acc' \<Rightarrow> Walk openFormat es2 acc')"
  by (induction es1 arbitrary: acc) (auto split: sum.splits)

lemma Walk_fails_iff:
  "(\<exists>err. Walk openFormat es acc = Inl err) \<longleftrightarrow>
     (\<exists>e \<in> set es. \<exists>acc'. \<exists>err. walkFn openFormat e acc' = Inl err)"
proof (induction es arbitrary: acc)
  case Nil
  show ?case by simp
next
  case (Cons e es)
  show ?case
  proof (cases "walkFn openFormat e acc")
    case (Inl err)
    then show ?thesis by (cases acc) auto
  next
    case (Inr acc1)
    have "\<not> (\<exists>acc' err. walkFn openFormat e acc' = Inl err)"
      using Inr walkFn_fails_iff [of openFormat e acc] walkFn_fails_iff [of openFormat e]
      by (metis sum.distinct(1))
    with Inr Cons.IH [of acc1] show ?thesis by auto
  qed
qed

text \<open>
  Claim C6, as amended. An entry whose format file cannot be opened is skipped: the
  result is the one without the entry. \<^verbatim>\<open>GatherSyscalls\<close> fails exactly when the walk
  passes an error for some entry, or some entry is a directory of a considered syscall
  (not \<^verbatim>\<open>sys_exit\<close>) whose format file opens and then cannot be read; in particular
  it never fails because of the type tables.
\<close>

theorem GatherSyscalls_skips_unopenable_only:
  "(WErr e = None \<and> openFormat (WName e) = OpenFails \<longrightarrow>
      GatherSyscalls openFormat (es1 @ e # es2) = GatherSyscalls openFormat (es1 @ es2))
   \<and> ((\<exists>err. GatherSyscalls openFormat entries = Inl err) \<longleftrightarrow>
        (\<exists>e \<in> set entries.
           WErr e \<noteq> None
           \<or> (WPath e \<noteq> ''syscalls'' \<and> WIsDir e \<and> \<not> HasPrefix (WName e) ''sys_exit''
               \<and> TrimPrefix (WName e) ''sys_enter_'' \<in> set consideredSyscalls
               \<and> (\<exists>msg. openFormat (WName e) = ReadFails msg))))"
proof (intro conjI impI)
  assume a: "WErr e = None \<and> openFormat (WName e) = OpenFails"
  have "Walk openFormat (es1 @ e # es2) acc = Walk openFormat (es1 @ es2) acc" for acc
    using a by (simp add: Walk_append walkFn_skips_unopenable split: sum.splits)
  then show "GatherSyscalls openFormat (es1 @ e # es2) = GatherSyscalls openFormat (es1 @ es2)"
    by (simp add: GatherSyscalls_def)
next
  have "(\<exists>err. GatherSyscalls openFormat entries = Inl err)
          \<longleftrightarrow> (\<exists>err. Walk openFormat entries ([], [], []) = Inl err)"
    by (auto simp: GatherSyscalls_def split: sum.splits prod.splits)
  also have "\<dots> \<longleftrightarrow> (\<exists>e \<in> set entries. \<exists>acc'. \<exists>err. walkFn openFormat e acc' = Inl err)"
    by (rule Walk_fails_iff)
  also have "\<dots> \<longleftrightarrow> (\<exists>e \<in> set entries.
           WErr e \<noteq> None
           \<or> (WPath e \<noteq> ''syscalls'' \<and> WIsDir e \<and> \<not> HasPrefix (WName e) ''sys_exit''
               \<and> TrimPrefix (WName e) ''sys_enter_'' \<in> set consideredSyscalls
               \<and> (\<exists>msg. openFormat (WName e) = ReadFails msg)))"
    by (simp add: walkFn_fails_iff)
  finally show "(\<exists>err. GatherSyscalls openFormat entries = Inl err) \<longleftrightarrow>
        (\<exists>e \<in> set entries.
           WErr e \<noteq> None
           \<or> (WPath e \<noteq> ''syscalls'' \<and> WIsDir e \<and> \<not> HasPrefix (WName e) ''sys_exit''
               \<and> TrimPrefix (WName e) ''sys_enter_'' \<in> set consideredSyscalls
               \<and> (\<exists>msg. openFormat (WName e) = ReadFails msg)))" .
qed

theorem GatherSyscalls_skips_unopenable_only_witness:
  "sampleFormats ''sys_enter_close'' = OpenFails
   \<and> GatherSyscalls sampleFormats
     [\<lparr>WPath = ''/sys/kernel/debug/tracing/events/syscalls/'',
       WName = ''syscalls'', WIsDir = True, WErr = None\<rparr>,
      \<lparr>WPath = ''/sys/kernel/debug/tracing/events/syscalls/sys_enter_close'',
       WName = ''sys_enter_close'', WIsDir = True, WErr = None\<rparr>,
      \<lparr>WPath = ''/sys/kernel/debug/tracing/events/syscalls/sys_enter_open'',
       WName = ''sys_enter_open'', WIsDir = True, WErr = None\<rparr>]
     = GatherSyscalls sampleFormats
     [\<lparr>WPath = ''/sys/kernel/debug/tracing/events/syscalls/'',
       WName = ''syscalls'', WIsDir = True, WErr = None\<rparr>,
      \<lparr>WPath = ''/sys/kernel/debug/tracing/events/syscalls/sys_enter_open'',
       WName = ''sys_enter_open'', WIsDir = True, WErr = None\<rparr>]"
  using GatherSyscalls_skips_unopenable_only
    [where openFormat = sampleFormats
       and e = "\<lparr>WPath = ''/sys/kernel/debug/tracing/events/syscalls/sys_enter_close'',
                  WName = ''sys_enter_close'', WIsDir = True, WErr = None\<rparr>"
       and ?es1.0 = "[\<lparr>WPath = ''/sys/kernel/debug/tracing/events/syscalls/'',
                      WName = ''syscalls'', WIsDir = True, WErr = None\<rparr>]"
       and ?es2.0 = "[\<lparr>WPath = ''/sys/kernel/debug/tracing/events/syscalls/sys_enter_open'',
                      WName = ''sys_enter_open'', WIsDir = True, WErr = None\<rparr>]"]
  by (simp add: sampleFormats_def)

text \<open>
  The claim as stated fails: a format file that opens and cannot be read makes
  \<^verbatim>\<open>GatherSyscalls\<close> fail, and so does a tracing directory that is missing.
\<close>

theorem GatherSyscalls_fails_on_unreadable_counterexample:
  "GatherSyscalls sampleFormats
     [\<lparr>WPath = ''/sys/kernel/debug/tracing/events/syscalls/sys_enter_read'',
       WName = ''sys_enter_read'', WIsDir = True, WErr = None\<rparr>]
     = Inl (ErrorWalking (ReadError ''input/output error''))
   \<and> GatherSyscalls sampleFormats
     [\<lparr>WPath = ''/sys/kernel/debug/tracing/events/syscalls/'',
       WName = ''syscalls'', WIsDir = False, WErr = Some ''no such file or directory''\<rparr>]
     = Inl (ErrorWalking (LstatError ''no such file or directory''))"
  by (simp add: GatherSyscalls_def walkFn_def sampleFormats_def HasPrefix_def TrimPrefix_def
        consideredSyscalls_def)

end
